theory Spec2Isabelle
  imports Complex_Main "HOL-Library.Char_ord" "HOL-Library.List_Lexorder" "HOL-Library.Log_Nat"
begin

section \<open>Python values\<close>

text \<open>
  The backend builds and reads nested Python values: the query body sent to the engine
  and the decoded JSON response. A dict is an association list in insertion order with
  string keys (the order Python 3.7 iterates it in); a well-formed dict has distinct keys.
  \<open>PDatetime t\<close> is the naive \<open>datetime\<close> whose UTC instant is \<open>t\<close> seconds after the epoch
  (\<open>t\<close> a whole number of microseconds).
\<close>

datatype pyval =
    PNone
  | PBool bool
  | PInt int
  | PStr string
  | PList "pyval list"
  | PTuple "pyval list"
  | PDict "(string \<times> pyval) list"
  | PDatetime rat

type_synonym dict = "(string \<times> pyval) list"

text \<open>The exceptions the modelled code can raise; \<open>TransportError\<close> carries the HTTP status.\<close>

datatype error =
    UnboundLocalError
  | KeyError string
  | TypeError
  | AttributeError
  | ValueError
  | OverflowError
  | TransportError nat
  | BulkIndexError

text \<open>Sequencing of a computation that may raise.\<close>

definition ebind :: "error + 'a \<Rightarrow> ('a \<Rightarrow> error + 'b) \<Rightarrow> error + 'b" where
  "ebind m f = (case m of Inl e \<Rightarrow> Inl e | Inr x \<Rightarrow> f x)"

text \<open>\<open>d[k] = v\<close>: an existing key keeps its position, a new key goes last.\<close>

fun dict_set :: "string \<Rightarrow> pyval \<Rightarrow> dict \<Rightarrow> dict" where
  "dict_set k v [] = [(k, v)]"
| "dict_set k v ((k', v') # d) = (if k' = k then (k, v) # d else (k', v') # dict_set k v d)"

text \<open>\<open>d.get(k)\<close> and \<open>k in d\<close>.\<close>

definition dict_get :: "dict \<Rightarrow> string \<Rightarrow> pyval option" where
  "dict_get d k = map_of d k"

definition dict_has :: "dict \<Rightarrow> string \<Rightarrow> bool" where
  "dict_has d k = (map_of d k \<noteq> None)"

text \<open>\<open>d.pop(k)\<close> leaves the other entries in place.\<close>

definition dict_del :: "string \<Rightarrow> dict \<Rightarrow> dict" where
  "dict_del k d = filter (\<lambda>kv. fst kv \<noteq> k) d"

text \<open>\<open>d.update(e)\<close>: the entries of \<open>e\<close> are assigned in order.\<close>

definition dict_update :: "dict \<Rightarrow> dict \<Rightarrow> dict" where
  "dict_update d e = foldl (\<lambda>acc kv. dict_set (fst kv) (snd kv) acc) d e"

text \<open>
  \<open>x[k]\<close> for a string key: a dict without the key raises KeyError, and every other
  value raises TypeError (a list, tuple or string wants an integer index, the rest
  cannot be subscripted).
\<close>

fun subscript :: "pyval \<Rightarrow> string \<Rightarrow> error + pyval" where
  "subscript (PDict d) k = (case map_of d k of None \<Rightarrow> Inl (KeyError k) | Some v \<Rightarrow> Inr v)"
| "subscript _ k = Inl TypeError"

section \<open>Combining the relevance query with the filters\<close>

text \<open>
  \<^verbatim>\<open>
  def _build_search_kwargs_query(self, filters, query):
      if filters:
          result = {"bool": {"must": query}}
          if len(filters) == 1:
              result['bool']["filter"] = filters[0]
          else:
              result['bool']["filter"] = {"bool": {"must": filters}}
      return result
  \<close>
  With an empty filter list \<open>result\<close> is never bound and the \<open>return\<close> raises
  UnboundLocalError.
\<close>

definition build_search_kwargs_query :: "pyval list \<Rightarrow> pyval \<Rightarrow> error + pyval" where
  "build_search_kwargs_query filters query =
     (if filters \<noteq> [] then
        (let result = [(''must'', query)] in
         if length filters = 1
         then Inr (PDict [(''bool'', PDict (dict_set ''filter'' (hd filters) result))])
         else Inr (PDict [(''bool'', PDict (dict_set ''filter''
                     (PDict [(''bool'', PDict [(''must'', PList filters)])]) result))]))
      else Inl UnboundLocalError)"

section \<open>Decoding the response\<close>

text \<open>Iterating a value: a dict yields its keys, a string its characters.\<close>

fun py_iter :: "pyval \<Rightarrow> error + pyval list" where
  "py_iter (PList xs) = Inr xs"
| "py_iter (PTuple xs) = Inr xs"
| "py_iter (PDict d) = Inr (map (\<lambda>kv. PStr (fst kv)) d)"
| "py_iter (PStr s) = Inr (map (\<lambda>c. PStr [c]) s)"
| "py_iter _ = Inl TypeError"

text \<open>\<open>x.items()\<close>: only a dict has the method.\<close>

fun py_items :: "pyval \<Rightarrow> error + dict" where
  "py_items (PDict d) = Inr d"
| "py_items _ = Inl AttributeError"

text \<open>A list comprehension whose element expression may raise: the first error wins.\<close>

fun emap :: "('a \<Rightarrow> error + 'b) \<Rightarrow> 'a list \<Rightarrow> error + 'b list" where
  "emap f [] = Inr []"
| "emap f (x # xs) = ebind (f x) (\<lambda>y. ebind (emap f xs) (\<lambda>ys. Inr (y # ys)))"

text \<open>\<open>(individual['key'], individual['doc_count'])\<close>\<close>

definition term_pair :: "pyval \<Rightarrow> error + pyval \<times> pyval" where
  "term_pair individual =
     ebind (subscript individual ''key'') (\<lambda>k.
     ebind (subscript individual ''doc_count'') (\<lambda>c. Inr (k, c)))"

text \<open>
  \<open>sorted(pairs, key=lambda x: x[1])\<close>. The sort is stable. Counts are compared as
  Python 3 compares them: integers (and booleans, which are integers) by value. Python
  raises TypeError when two counts of different kinds, two \<open>None\<close> or two dicts are
  compared, which happens as soon as the list has two elements; the model reports
  TypeError for every list of two or more pairs with a count that is not an integer
  (counts that are all strings or all lists, which Python would order, are outside it).
\<close>

fun count_key :: "pyval \<Rightarrow> int option" where
  "count_key (PInt n) = Some n"
| "count_key (PBool b) = Some (if b then 1 else 0)"
| "count_key _ = None"

definition sorted_by_count :: "(pyval \<times> pyval) list \<Rightarrow> error + (pyval \<times> pyval) list" where
  "sorted_by_count pairs =
     (if list_all (\<lambda>x. count_key (snd x) \<noteq> None) pairs
      then Inr (sort_key (\<lambda>x. the (count_key (snd x))) pairs)
      else if length pairs \<le> 1 then Inr pairs
      else Inl TypeError)"

text \<open>
  A Python float is a binary64 number; the model names it by its exact value, a rational.
  \<open>binary64 x\<close> is the float nearest to \<open>x\<close>, ties going to the even significand:
  with \<open>2 ^ e \<le> |x| < 2 ^ (e + 1)\<close> the floats around \<open>x\<close> are the multiples of
  \<open>2 ^ (e - 52)\<close>. (Overflow is handled where it can occur; the subnormal range below
  \<open>2 ^ -1022\<close> is not reached by the numbers of this module.)
\<close>

definition pow2 :: "int \<Rightarrow> rat" where
  "pow2 e = (if 0 \<le> e then 2 ^ nat e else 1 / 2 ^ nat (- e))"

definition exponent :: "rat \<Rightarrow> int" where
  "exponent x =
     (if 1 \<le> \<bar>x\<bar> then bitlen \<lfloor>\<bar>x\<bar>\<rfloor> - 1 else - bitlen (\<lceil>1 / \<bar>x\<bar>\<rceil> - 1))"

definition round_half_even :: "rat \<Rightarrow> int" where
  "round_half_even x =
     (let f = \<lfloor>x\<rfloor>; r = x - of_int f
      in if r < 1 / 2 then f else if 1 / 2 < r then f + 1 else if even f then f else f + 1)"

definition binary64 :: "rat \<Rightarrow> rat" where
  "binary64 x =
     (if x = 0 then 0
      else (let u = pow2 (exponent x - 52) in of_int (round_half_even (x / u)) * u))"

text \<open>
  \<open>individual['key'] / 1000\<close> under \<open>from __future__ import division\<close>: true
  division, which gives the float nearest to the quotient of the two integers, and
  OverflowError when that is beyond the largest float. A value that is not a number raises
  TypeError.
\<close>

definition int_truediv_1000 :: "int \<Rightarrow> error + rat" where
  "int_truediv_1000 n =
     (if 2 ^ 1024 - 2 ^ 970 \<le> \<bar>of_int n / 1000 :: rat\<bar> then Inl OverflowError
      else Inr (binary64 (of_int n / 1000)))"

fun truediv_1000 :: "pyval \<Rightarrow> error + rat" where
  "truediv_1000 (PInt n) = int_truediv_1000 n"
| "truediv_1000 (PBool b) = int_truediv_1000 (if b then 1 else 0)"
| "truediv_1000 _ = Inl TypeError"

text \<open>
  \<open>datetime.datetime.utcfromtimestamp(d)\<close> for a float \<open>d\<close>, as CPython 3 computes it:
  the float is split into its integral part (towards zero) and its fraction; the fraction
  is multiplied by a million, in floating point, and rounded to an integer, half to even;
  a result of a million or more, or below zero, is carried into the seconds.
  \<^verbatim>\<open>
  floatpart = modf(d, &intpart);
  floatpart *= denominator;
  floatpart = pytime_round(floatpart, round);
  if (floatpart >= denominator) { floatpart -= denominator; intpart += 1.0; }
  else if (floatpart < 0) { floatpart += denominator; intpart -= 1.0; }
  \<close>
  The datetime exists for the years 1 to 9999, that is from epoch second -62135596800 up
  to, not including, 253402300800. Outside Python raises ValueError (OverflowError or
  OSError for still larger magnitudes; ValueError stands for them here).
\<close>

definition utc_parts :: "rat \<Rightarrow> int \<times> int" where
  "utc_parts d =
     (let intpart = (if 0 \<le> d then \<lfloor>d\<rfloor> else \<lceil>d\<rceil>);
          us = round_half_even (binary64 ((d - of_int intpart) * 1000000))
      in if 1000000 \<le> us then (intpart + 1, us - 1000000)
         else if us < 0 then (intpart - 1, us + 1000000)
         else (intpart, us))"

definition utcfromtimestamp :: "rat \<Rightarrow> error + pyval" where
  "utcfromtimestamp d =
     (let parts = utc_parts d
      in if - 62135596800 \<le> fst parts \<and> fst parts < 253402300800
         then Inr (PDatetime (of_int (fst parts) + of_int (snd parts) / 1000000))
         else Inl ValueError)"

text \<open>\<open>(datetime.datetime.utcfromtimestamp(individual['key'] / 1000), individual['doc_count'])\<close>\<close>

definition date_pair :: "pyval \<Rightarrow> error + pyval \<times> pyval" where
  "date_pair individual =
     ebind (subscript individual ''key'') (\<lambda>k.
     ebind (truediv_1000 k) (\<lambda>t.
     ebind (utcfromtimestamp t) (\<lambda>ts.
     ebind (subscript individual ''doc_count'') (\<lambda>c. Inr (ts, c)))))"

definition tuples :: "(pyval \<times> pyval) list \<Rightarrow> pyval" where
  "tuples pairs = PList (map (\<lambda>x. PTuple [fst x, snd x]) pairs)"

text \<open>The three mappings of the facets structure while the loop fills them.\<close>

record facets =
  facet_fields :: dict
  facet_dates :: dict
  facet_queries :: dict

definition empty_facets :: facets where
  "empty_facets = \<lparr>facet_fields = [], facet_dates = [], facet_queries = []\<rparr>"

definition facets_dict :: "facets \<Rightarrow> dict" where
  "facets_dict fs =
     [(''fields'', PDict (facet_fields fs)), (''dates'', PDict (facet_dates fs)),
      (''queries'', PDict (facet_queries fs))]"

text \<open>
  One turn of the loop over \<open>raw_results['aggregations'].items()\<close>:
  \<^verbatim>\<open>
  facet_type = facet_info['meta']['_type']
  if facet_type == 'terms':
      facets['fields'][facet_fieldname] = [(individual['key'], individual['doc_count'])
                                           for individual in facet_info['buckets']]
      if 'order' in facet_info['meta']:
          if facet_info['meta']['order'] == 'reverse_count':
              srt = sorted(facets['fields'][facet_fieldname], key=lambda x: x[1])
              facets['fields'][facet_fieldname] = srt
  elif facet_type == 'date_histogram':
      facets['dates'][facet_fieldname] = [(datetime.datetime.utcfromtimestamp(individual['key'] / 1000),
                                           individual['doc_count'])
                                          for individual in facet_info['buckets']]
  elif facet_type == 'query':
      facets['queries'][facet_fieldname] = facet_info['doc_count']
  \<close>
  \<open>facet_info['meta']\<close> has been subscripted by a string when \<open>'order' in\<close> reads
  it, so it is a dict there. \<open>terms_value\<close> and \<open>dates_value\<close> are the lists stored
  by the first two branches.
\<close>

definition terms_value :: "pyval \<Rightarrow> pyval \<Rightarrow> error + pyval" where
  "terms_value facet_info meta =
     ebind (subscript facet_info ''buckets'') (\<lambda>buckets.
     ebind (py_iter buckets) (\<lambda>individuals.
     ebind (emap term_pair individuals) (\<lambda>pairs.
     ebind (py_items meta) (\<lambda>m.
       if dict_has m ''order'' \<and> dict_get m ''order'' = Some (PStr ''reverse_count'')
       then ebind (sorted_by_count pairs) (\<lambda>srt. Inr (tuples srt))
       else Inr (tuples pairs)))))"

definition dates_value :: "pyval \<Rightarrow> error + pyval" where
  "dates_value facet_info =
     ebind (subscript facet_info ''buckets'') (\<lambda>buckets.
     ebind (py_iter buckets) (\<lambda>individuals.
     ebind (emap date_pair individuals) (\<lambda>pairs. Inr (tuples pairs))))"

definition decode_facet :: "string \<Rightarrow> pyval \<Rightarrow> facets \<Rightarrow> error + facets" where
  "decode_facet facet_fieldname facet_info fs =
     ebind (subscript facet_info ''meta'') (\<lambda>meta.
     ebind (subscript meta ''_type'') (\<lambda>facet_type.
       if facet_type = PStr ''terms'' then
         ebind (terms_value facet_info meta) (\<lambda>v.
           Inr (fs\<lparr>facet_fields := dict_set facet_fieldname v (facet_fields fs)\<rparr>))
       else if facet_type = PStr ''date_histogram'' then
         ebind (dates_value facet_info) (\<lambda>v.
           Inr (fs\<lparr>facet_dates := dict_set facet_fieldname v (facet_dates fs)\<rparr>))
       else if facet_type = PStr ''query'' then
         ebind (subscript facet_info ''doc_count'') (\<lambda>c.
           Inr (fs\<lparr>facet_queries := dict_set facet_fieldname c (facet_queries fs)\<rparr>))
       else Inr fs))"

fun decode_facets :: "dict \<Rightarrow> facets \<Rightarrow> error + facets" where
  "decode_facets [] fs = Inr fs"
| "decode_facets ((facet_fieldname, facet_info) # rest) fs =
     ebind (decode_facet facet_fieldname facet_info fs) (decode_facets rest)"

text \<open>
  \<^verbatim>\<open>
  def _process_results(self, raw_results, highlight=False, result_class=None,
                       distance_point=None, geo_sort=False):
      results = super(Elasticsearch5SearchBackend, self)._process_results(raw_results, ...)
      facets = {}
      if 'aggregations' in raw_results:
          facets = {'fields': {}, 'dates': {}, 'queries': {}}
          for facet_fieldname, facet_info in raw_results['aggregations'].items():
              ...
      results['facets'] = facets
      return results
  \<close>
  The method of the base class is not part of this module; \<open>super_process_results\<close>
  stands for it: it returns the result mapping (hits and so on) or raises.
\<close>

definition process_results :: "(dict \<Rightarrow> error + dict) \<Rightarrow> dict \<Rightarrow> error + dict" where
  "process_results super_process_results raw_results =
     ebind (super_process_results raw_results) (\<lambda>results.
     ebind (if dict_has raw_results ''aggregations''
            then ebind (subscript (PDict raw_results) ''aggregations'') (\<lambda>aggregations.
                 ebind (py_items aggregations) (\<lambda>items.
                 ebind (decode_facets items empty_facets) (\<lambda>fs. Inr (facets_dict fs))))
            else Inr []) (\<lambda>facets.
       Inr (dict_set ''facets'' (PDict facets) results)))"

section \<open>Compiling the facets\<close>

text \<open>Truth value of a Python value, as \<open>if x:\<close> tests it.\<close>

fun truthy :: "pyval \<Rightarrow> bool" where
  "truthy PNone = False"
| "truthy (PBool b) = b"
| "truthy (PInt n) = (n \<noteq> 0)"
| "truthy (PStr s) = (s \<noteq> [])"
| "truthy (PList xs) = (xs \<noteq> [])"
| "truthy (PTuple xs) = (xs \<noteq> [])"
| "truthy (PDict d) = (d \<noteq> [])"
| "truthy (PDatetime t) = True"

text \<open>\<open>str.lower()\<close> on ASCII letters; other characters are left as they are.\<close>

definition lower_char :: "char \<Rightarrow> char" where
  "lower_char c =
     (case map_of (zip ''ABCDEFGHIJKLMNOPQRSTUVWXYZ'' ''abcdefghijklmnopqrstuvwxyz'') c of
        None \<Rightarrow> c | Some l \<Rightarrow> l)"

definition lower :: "string \<Rightarrow> string" where
  "lower s = map lower_char s"

text \<open>\<open>"%s" % n\<close> for an integer: its decimal digits, with a minus sign when negative.\<close>

fun digits :: "nat \<Rightarrow> string" where
  "digits n = (if n < 10 then [''0123456789'' ! n]
               else digits (n div 10) @ [''0123456789'' ! (n mod 10)])"

declare digits.simps [simp del]

definition str_of_int :: "int \<Rightarrow> string" where
  "str_of_int i = (if i < 0 then CHR ''-'' # digits (nat (- i)) else digits (nat i))"

text \<open>
  A terms facet: the options given for one facet field, by name.
  \<^verbatim>\<open>
  facet_options = {
      'meta': {'_type': 'terms'},
      'terms': {'field': index.get_facet_fieldname(facet_fieldname)},
  }
  if 'order' in extra_options:
      facet_options['meta']['order'] = extra_options.pop('order')
  if extra_options.pop('global_scope', False):
      facet_options['global'] = True
  if 'facet_filter' in extra_options:
      facet_options['facet_filter'] = extra_options.pop('facet_filter')
  facet_options['terms'].update(extra_options)
  \<close>
  \<open>get_facet_fieldname\<close> is the schema's naming of facet fields.
\<close>

definition terms_facet :: "(string \<Rightarrow> string) \<Rightarrow> string \<Rightarrow> dict \<Rightarrow> dict" where
  "terms_facet get_facet_fieldname facet_fieldname extra_options =
     (let meta = [(''_type'', PStr ''terms'')];
          terms = [(''field'', PStr (get_facet_fieldname facet_fieldname))];
          meta1 = (case dict_get extra_options ''order'' of
                     None \<Rightarrow> meta | Some v \<Rightarrow> dict_set ''order'' v meta);
          extra1 = dict_del ''order'' extra_options;
          global_scope = (case dict_get extra1 ''global_scope'' of
                            None \<Rightarrow> False | Some v \<Rightarrow> truthy v);
          extra2 = dict_del ''global_scope'' extra1;
          facet_options = [(''meta'', PDict meta1), (''terms'', PDict (dict_update terms
                             (dict_del ''facet_filter'' extra2)))];
          facet_options1 = (if global_scope
                            then dict_set ''global'' (PBool True) facet_options
                            else facet_options)
      in case dict_get extra2 ''facet_filter'' of
           None \<Rightarrow> facet_options1
         | Some v \<Rightarrow> dict_set ''facet_filter'' v facet_options1)"

fun terms_facets :: "(string \<Rightarrow> string) \<Rightarrow> (string \<times> dict) list \<Rightarrow> dict \<Rightarrow> dict" where
  "terms_facets gf [] result = result"
| "terms_facets gf ((facet_fieldname, extra_options) # rest) result =
     terms_facets gf rest
       (dict_set facet_fieldname (PDict (terms_facet gf facet_fieldname extra_options)) result)"

text \<open>
  A date facet as the query API stores it: the keys \<open>gap_by\<close>, \<open>gap_amount\<close>,
  \<open>start_date\<close> and \<open>end_date\<close>, each of which may be missing (\<open>None\<close> here).
\<close>

record date_facet =
  gap_by :: "string option"
  gap_amount :: "int option"
  start_date :: "pyval option"
  end_date :: "pyval option"

text \<open>
  \<^verbatim>\<open>
  interval = value.get('gap_by').lower()
  if value.get('gap_amount', 1) != 1 and interval not in ('month', 'year'):
      interval = "%s%s" % (value['gap_amount'], interval[:1])
  \<close>
\<close>

definition date_interval :: "date_facet \<Rightarrow> error + string" where
  "date_interval v =
     (case gap_by v of
        None \<Rightarrow> Inl AttributeError
      | Some g \<Rightarrow>
          (let interval = lower g in
           if (case gap_amount v of None \<Rightarrow> 1 | Some a \<Rightarrow> a) \<noteq> 1
              \<and> interval \<notin> set [''month'', ''year'']
           then (case gap_amount v of
                   None \<Rightarrow> Inl (KeyError ''gap_amount'')
                 | Some a \<Rightarrow> Inr (str_of_int a @ take 1 interval))
           else Inr interval))"

text \<open>\<open>from_python\<close> is the base class's conversion of a bound to the engine's format.\<close>

definition date_facet_clause ::
  "(pyval \<Rightarrow> pyval) \<Rightarrow> string \<Rightarrow> date_facet \<Rightarrow> error + dict" where
  "date_facet_clause from_python facet_fieldname v =
     ebind (date_interval v) (\<lambda>interval. Inr
       [(''meta'', PDict [(''_type'', PStr ''date_histogram'')]),
        (''date_histogram'', PDict [(''field'', PStr facet_fieldname),
                                    (''interval'', PStr interval)]),
        (''aggs'', PDict [(facet_fieldname, PDict [(''date_range'', PDict
           [(''field'', PStr facet_fieldname),
            (''ranges'', PList [PDict
               [(''from'', from_python (case start_date v of None \<Rightarrow> PNone | Some d \<Rightarrow> d)),
                (''to'', from_python (case end_date v of None \<Rightarrow> PNone | Some d \<Rightarrow> d))]])])])])])"

fun date_facets_loop ::
  "(pyval \<Rightarrow> pyval) \<Rightarrow> (string \<times> date_facet) list \<Rightarrow> dict \<Rightarrow> error + dict" where
  "date_facets_loop fp [] result = Inr result"
| "date_facets_loop fp ((facet_fieldname, v) # rest) result =
     ebind (date_facet_clause fp facet_fieldname v) (\<lambda>c.
       date_facets_loop fp rest (dict_set facet_fieldname (PDict c) result))"

definition query_facet_clause :: "pyval \<Rightarrow> dict" where
  "query_facet_clause v =
     [(''meta'', PDict [(''_type'', PStr ''query'')]),
      (''filter'', PDict [(''query_string'', PDict [(''query'', v)])])]"

fun query_facets_loop :: "(string \<times> pyval) list \<Rightarrow> dict \<Rightarrow> dict" where
  "query_facets_loop [] result = result"
| "query_facets_loop ((facet_fieldname, v) # rest) result =
     query_facets_loop rest (dict_set facet_fieldname (PDict (query_facet_clause v)) result)"

text \<open>
  \<^verbatim>\<open>
  def _build_search_kwargs_facets(self, facets, date_facets, query_facets):
      result = {}
      if facets is not None: ...
      if date_facets is not None: ...
      if query_facets is not None: ...
      return 'aggs', result
  \<close>
\<close>

definition build_search_kwargs_facets ::
  "(string \<Rightarrow> string) \<Rightarrow> (pyval \<Rightarrow> pyval) \<Rightarrow> (string \<times> dict) list option \<Rightarrow>
   (string \<times> date_facet) list option \<Rightarrow> (string \<times> pyval) list option \<Rightarrow>
   error + string \<times> dict" where
  "build_search_kwargs_facets get_facet_fieldname from_python facets date_facets query_facets =
     (let result = (case facets of None \<Rightarrow> []
                    | Some fs \<Rightarrow> terms_facets get_facet_fieldname fs [])
      in ebind (case date_facets of None \<Rightarrow> Inr result
                | Some ds \<Rightarrow> date_facets_loop from_python ds result) (\<lambda>result1.
           Inr (''aggs'', (case query_facets of None \<Rightarrow> result1
                           | Some qs \<Rightarrow> query_facets_loop qs result1))))"

section \<open>The backend, its collaborators and the engine\<close>

text \<open>
  What the backend sends through its connection, in order. The client library's
  \<open>scan\<close> and \<open>bulk\<close> helpers page through the matches and send the deletions in
  chunks; each is one entry here, with all the ids.
\<close>

datatype request =
    DeleteIndex string
  | Scan string pyval
  | Bulk string "string list"
  | Refresh string
  | Search string pyval dict

text \<open>The three error messages the module logs, with their arguments.\<close>

datatype log_record =
    FailedToClearModels string error
  | FailedToClear error
  | FailedMoreLikeThis string error

text \<open>The attributes of the backend object that the module reads or writes.\<close>

record backend =
  index_name :: string
  silently_fail :: bool
  setup_complete :: bool
  existing_mapping :: dict
  content_field_name :: "string option"
  log_records :: "log_record list"
  requests :: "request list"

text \<open>
  The engine's answers to the requests. A search or a scan answers with its result or
  with a failure status, a bulk deletion succeeds or raises (a TransportError, or the
  helper's BulkIndexError, which is not one), the deletion and the refresh of an index
  answer with an HTTP status. The client raises TransportError for a status outside
  200..299 unless the caller lists it in \<open>ignore\<close>.
\<close>

record engine =
  search_answer :: "string \<Rightarrow> pyval \<Rightarrow> dict \<Rightarrow> nat + dict"
  delete_answer :: "string \<Rightarrow> nat"
  scan_answer :: "string \<Rightarrow> pyval \<Rightarrow> nat + string list"
  bulk_answer :: "string \<Rightarrow> string list \<Rightarrow> error option"
  refresh_answer :: "string \<Rightarrow> nat"

definition perform :: "nat \<Rightarrow> nat list \<Rightarrow> error option" where
  "perform status ignore =
     (if (200 \<le> status \<and> status < 300) \<or> status \<in> set ignore then None
      else Some (TransportError status))"

text \<open>
  The collaborators outside this module: the framework's constant and helpers, the
  setting \<open>HAYSTACK_LIMIT_TO_REGISTERED_MODELS\<close> (\<open>None\<close> when it is not set), and
  the methods of the base class.
\<close>

record ('model, 'inst) site =
  DJANGO_CT :: string
  get_model_ct :: "'model \<Rightarrow> string"
  get_identifier :: "'inst \<Rightarrow> string"
  get_content_field :: "'inst \<Rightarrow> string"
  limit_setting :: "bool option"
  build_models_list :: "string list"
  run_setup :: "backend \<Rightarrow> error + backend"
  super_process_results :: "dict \<Rightarrow> error + dict"

section \<open>Clearing the index\<close>

text \<open>\<open>sep.join(xs)\<close>\<close>

fun join :: "string \<Rightarrow> string list \<Rightarrow> string" where
  "join sep [] = []"
| "join sep [x] = x"
| "join sep (x # y # ys) = x @ sep @ join sep (y # ys)"

text \<open>
  The body of the \<open>try\<close> block of \<open>clear\<close>: the exception raised, if any, and the
  backend as it is at that moment.
  \<^verbatim>\<open>
  if models is None:
      self.conn.indices.delete(index=self.index_name, ignore=404)
      self.setup_complete = False
      self.existing_mapping = {}
      self.content_field_name = None
  else:
      models_to_delete = []
      for model in models:
          models_to_delete.append("%s:%s" % (DJANGO_CT, get_model_ct(model)))
      query = {'query': {'query_string': {'query': " OR ".join(models_to_delete)}}}
      generator = scan(self.conn, query=query, index=self.index_name, doc_type='modelresult')
      actions = ({'_op_type': 'delete', '_id': doc['_id']} for doc in generator)
      bulk(self.conn, actions=actions, index=self.index_name, doc_type='modelresult')
      self.conn.indices.refresh(index=self.index_name)
  \<close>
\<close>

definition models_to_delete :: "('model, 'inst) site \<Rightarrow> 'model list \<Rightarrow> string list" where
  "models_to_delete s models = map (\<lambda>model. DJANGO_CT s @ '':'' @ get_model_ct s model) models"

definition clear_query :: "('model, 'inst) site \<Rightarrow> 'model list \<Rightarrow> pyval" where
  "clear_query s models =
     PDict [(''query'', PDict [(''query_string'',
       PDict [(''query'', PStr (join '' OR '' (models_to_delete s models)))])])]"

definition clear_try ::
  "('model, 'inst) site \<Rightarrow> engine \<Rightarrow> 'model list option \<Rightarrow> backend \<Rightarrow> error option \<times> backend" where
  "clear_try s e models b =
     (case models of
        None \<Rightarrow>
          (let b1 = b\<lparr>requests := requests b @ [DeleteIndex (index_name b)]\<rparr> in
           case perform (delete_answer e (index_name b)) [404] of
             Some err \<Rightarrow> (Some err, b1)
           | None \<Rightarrow> (None, b1\<lparr>setup_complete := False, existing_mapping := [],
                                content_field_name := None\<rparr>))
      | Some ms \<Rightarrow>
          (let query = clear_query s ms;
               b1 = b\<lparr>requests := requests b @ [Scan (index_name b) query]\<rparr> in
           case scan_answer e (index_name b) query of
             Inl status \<Rightarrow> (Some (TransportError status), b1)
           | Inr ids \<Rightarrow>
               (let b2 = b1\<lparr>requests := requests b1 @ [Bulk (index_name b) ids]\<rparr> in
                case bulk_answer e (index_name b) ids of
                  Some err \<Rightarrow> (Some err, b2)
                | None \<Rightarrow>
                    (let b3 = b2\<lparr>requests := requests b2 @ [Refresh (index_name b)]\<rparr> in
                     (perform (refresh_answer e (index_name b)) [], b3)))))"

text \<open>
  \<^verbatim>\<open>
  except elasticsearch.TransportError as e:
      if not self.silently_fail:
          raise
      if models is not None:
          self.log.error("Failed to clear Elasticsearch index of models '%s': %s",
                         ','.join(models_to_delete), e, exc_info=True)
      else:
          self.log.error("Failed to clear Elasticsearch index: %s", e, exc_info=True)
  \<close>
  Only a TransportError is caught. \<open>clear\<close> returns nothing; the model returns the
  backend it leaves.
\<close>

definition clear ::
  "('model, 'inst) site \<Rightarrow> engine \<Rightarrow> 'model list option \<Rightarrow> backend \<Rightarrow> error + backend" where
  "clear s e models b =
     (case clear_try s e models b of
        (None, b') \<Rightarrow> Inr b'
      | (Some (TransportError status), b') \<Rightarrow>
          if \<not> silently_fail b' then Inl (TransportError status)
          else (case models of
                  Some ms \<Rightarrow> Inr (b'\<lparr>log_records := log_records b' @
                     [FailedToClearModels (join '','' (models_to_delete s ms))
                        (TransportError status)]\<rparr>)
                | None \<Rightarrow> Inr (b'\<lparr>log_records := log_records b' @
                     [FailedToClear (TransportError status)]\<rparr>))
      | (Some err, b') \<Rightarrow> Inl err)"

section \<open>More like this\<close>

text \<open>
  The query document built inside the \<open>try\<close> block, before it is sent:
  \<^verbatim>\<open>
  mlt_query = {'query': {'more_like_this': {'fields': [field_name], 'like': [{"_id": doc_id}]}}}
  narrow_queries = []
  if additional_query_string and additional_query_string != '*:*':
      additional_filter = {"query_string": {"query": additional_query_string}}
      narrow_queries.append(additional_filter)
  if limit_to_registered_models is None:
      limit_to_registered_models = getattr(settings, 'HAYSTACK_LIMIT_TO_REGISTERED_MODELS', True)
  if models and len(models):
      model_choices = sorted(get_model_ct(model) for model in models)
  elif limit_to_registered_models:
      model_choices = self.build_models_list()
  else:
      model_choices = []
  if len(model_choices) > 0:
      model_filter = {"terms": {DJANGO_CT: model_choices}}
      narrow_queries.append(model_filter)
  if len(narrow_queries) > 0:
      mlt_query = {"query": {"bool": {'must': mlt_query['query'],
                                      'filter': {'bool': {'must': list(narrow_queries)}}}}}
  \<close>
  Strings are ordered as Python orders them, character by character.
\<close>

definition mlt_clause :: "string \<Rightarrow> string \<Rightarrow> pyval" where
  "mlt_clause field_name doc_id =
     PDict [(''more_like_this'', PDict [(''fields'', PList [PStr field_name]),
                                        (''like'', PList [PDict [(''_id'', PStr doc_id)]])])]"

definition model_choices ::
  "('model, 'inst) site \<Rightarrow> 'model list option \<Rightarrow> bool option \<Rightarrow> string list" where
  "model_choices s models limit_to_registered_models =
     (let limit = (case limit_to_registered_models of
                     None \<Rightarrow> (case limit_setting s of None \<Rightarrow> True | Some l \<Rightarrow> l)
                   | Some l \<Rightarrow> l)
      in if (case models of None \<Rightarrow> False | Some ms \<Rightarrow> ms \<noteq> [] \<and> length ms \<noteq> 0)
         then sort (map (get_model_ct s) (case models of None \<Rightarrow> [] | Some ms \<Rightarrow> ms))
         else if limit then build_models_list s
         else [])"

definition narrow_queries ::
  "('model, 'inst) site \<Rightarrow> string option \<Rightarrow> 'model list option \<Rightarrow> bool option \<Rightarrow> pyval list" where
  "narrow_queries s additional_query_string models limit_to_registered_models =
     (let nq = (case additional_query_string of
                  None \<Rightarrow> []
                | Some q \<Rightarrow> if q \<noteq> [] \<and> q \<noteq> ''*:*''
                            then [PDict [(''query_string'', PDict [(''query'', PStr q)])]]
                            else []);
          mc = model_choices s models limit_to_registered_models
      in if length mc > 0
         then nq @ [PDict [(''terms'', PDict [(DJANGO_CT s, PList (map PStr mc))])]]
         else nq)"

definition mlt_query ::
  "('model, 'inst) site \<Rightarrow> string \<Rightarrow> string \<Rightarrow> string option \<Rightarrow> 'model list option \<Rightarrow>
   bool option \<Rightarrow> pyval" where
  "mlt_query s field_name doc_id additional_query_string models limit_to_registered_models =
     (let nq = narrow_queries s additional_query_string models limit_to_registered_models in
      if length nq > 0
      then PDict [(''query'', PDict [(''bool'', PDict
             [(''must'', mlt_clause field_name doc_id),
              (''filter'', PDict [(''bool'', PDict [(''must'', PList nq)])])])])]
      else PDict [(''query'', mlt_clause field_name doc_id)])"



section \<open>Notions used to state the properties\<close>

text \<open>
  An aggregation entry that carries a metadata type tag, and the tag is none of the three
  the decoder knows.
\<close>

definition unrecognized :: "pyval \<Rightarrow> bool" where
  "unrecognized facet_info =
     (case ebind (subscript facet_info ''meta'') (\<lambda>meta. subscript meta ''_type'') of
        Inl err \<Rightarrow> False
      | Inr facet_type \<Rightarrow> facet_type \<noteq> PStr ''terms'' \<and> facet_type \<noteq> PStr ''date_histogram''
                          \<and> facet_type \<noteq> PStr ''query'')"

text \<open>
  The decoded list of a terms facet, from the (term, count) pairs of its buckets, and of a
  date facet, from the (millisecond key, count) pairs of its buckets.
\<close>

definition term_counts :: "(pyval \<times> int) list \<Rightarrow> pyval" where
  "term_counts bs = PList (map (\<lambda>x. PTuple [fst x, PInt (snd x)]) bs)"

definition date_counts :: "(int \<times> pyval) list \<Rightarrow> pyval" where
  "date_counts bs = PList (map (\<lambda>x. PTuple [PDatetime (of_int (fst x) / 1000), snd x]) bs)"

text \<open>
  A site for the examples: models and instances are named by strings, a model's name is its
  content type, every index has the content field \<open>text\<close>, no model is registered, and
  the base class decodes any response to a result mapping without hits.
\<close>

definition demo_site :: "(string, string) site" where
  "demo_site = \<lparr>DJANGO_CT = ''django_ct'', get_model_ct = (\<lambda>model. model),
     get_identifier = (\<lambda>inst. inst), get_content_field = (\<lambda>inst. ''text''),
     limit_setting = None, build_models_list = [],
     run_setup = (\<lambda>b. Inr (b\<lparr>setup_complete := True\<rparr>)),
     super_process_results = (\<lambda>raw. Inr [(''results'', PList []), (''hits'', PInt 0)])\<rparr>"

text \<open>
  An engine on which the index does not exist: it answers 404 to the deletion of the index,
  to a search or scan on it and to its refresh.
\<close>

definition missing_index_engine :: engine where
  "missing_index_engine =
     \<lparr>search_answer = (\<lambda>index body params. Inl 404), delete_answer = (\<lambda>index. 404),
      scan_answer = (\<lambda>index query. Inl 404), bulk_answer = (\<lambda>index ids. None),
      refresh_answer = (\<lambda>index. 404)\<rparr>"

text \<open>
  A backend that has completed its setup, with the given silent-fail configuration.
\<close>

definition demo_backend :: "bool \<Rightarrow> backend" where
  "demo_backend sf =
     \<lparr>index_name = ''haystack'', silently_fail = sf, setup_complete = True,
      existing_mapping = [(''modelresult'', PDict [])], content_field_name = Some ''text'',
      log_records = [], requests = []\<rparr>"

section \<open>Properties\<close>

subsection \<open>Auxiliary facts\<close>

lemma ebind_Inr [simp]: "ebind (Inr x) f = f x"
  by (simp add: ebind_def)

lemma ebind_Inl [simp]: "ebind (Inl e) f = Inl e"
  by (simp add: ebind_def)

lemma ebind_eq_Inr: "ebind m f = Inr y \<longleftrightarrow> (\<exists>x. m = Inr x \<and> f x = Inr y)"
  by (cases m) simp_all

lemma map_of_dict_set: "map_of (dict_set k v d) = (map_of d)(k \<mapsto> v)"
  by (induction d) (auto simp: fun_eq_iff)

lemma map_of_dict_set_same: "map_of (dict_set k v d) k = Some v"
  by (simp add: map_of_dict_set)

lemma map_of_dict_set_other: "k' \<noteq> k \<Longrightarrow> map_of (dict_set k v d) k' = map_of d k'"
  by (simp add: map_of_dict_set)

lemma map_of_dict_update_other:
  "k \<notin> fst ` set e \<Longrightarrow> map_of (dict_update d e) k = map_of d k"
  unfolding dict_update_def
  by (induction e arbitrary: d) (auto simp: map_of_dict_set)

lemma subscript_eq_Inr: "subscript x k = Inr v \<longleftrightarrow> (\<exists>d. x = PDict d \<and> map_of d k = Some v)"
  by (cases x) (auto split: option.splits)

lemma emap_Inr: "map f xs = map Inr ys \<Longrightarrow> emap f xs = Inr ys"
  by (induction xs arbitrary: ys) auto

lemma insort_key_map:
  "insort_key f (g x) (map g ys) = map g (insort_key (\<lambda>y. f (g y)) x ys)"
  by (induction ys) simp_all

lemma sort_key_map: "sort_key f (map g xs) = map g (sort_key (\<lambda>y. f (g y)) xs)"
  by (induction xs) (simp_all add: insort_key_map)

lemma sort_key_eq_Nil: "sort_key f xs = [] \<longleftrightarrow> xs = []"
proof
  assume "sort_key f xs = []"
  then have "length (sort_key f xs) = 0" by simp
  then show "xs = []" by (simp del: sort_key_simps)
qed simp

subsection \<open>Filter combination\<close>

lemma build_search_kwargs_query_one:
  "build_search_kwargs_query [f] query =
     Inr (PDict [(''bool'', PDict [(''must'', query), (''filter'', f)])])"
  by (simp add: build_search_kwargs_query_def)

lemma build_search_kwargs_query_many:
  "build_search_kwargs_query (f # g # fs) query =
     Inr (PDict [(''bool'', PDict [(''must'', query),
       (''filter'', PDict [(''bool'', PDict [(''must'', PList (f # g # fs))])])])])"
  by (simp add: build_search_kwargs_query_def)

text \<open>
  C1. The specification asks that with zero filters the relevance clause alone is the
  compiled query. The combination step does not return the relevance clause for an empty
  filter list: it raises UnboundLocalError, whatever the relevance clause is. (With one
  filter and with two or more the shapes are the documented ones, see
  \<open>build_search_kwargs_query_one\<close> and \<open>build_search_kwargs_query_many\<close>.)
\<close>

theorem build_search_kwargs_query_no_filters:
  "build_search_kwargs_query [] query = Inl UnboundLocalError
   \<and> build_search_kwargs_query [] query \<noteq> Inr query"
  by (simp add: build_search_kwargs_query_def)

subsection \<open>The loop over the aggregations\<close>

text \<open>
  A turn of the loop writes under its own facet name only.
\<close>

lemma decode_facet_cases:
  assumes "decode_facet n info fs = Inr fs'"
  shows "(\<exists>v. fs' = fs\<lparr>facet_fields := dict_set n v (facet_fields fs)\<rparr>)
       \<or> (\<exists>v. fs' = fs\<lparr>facet_dates := dict_set n v (facet_dates fs)\<rparr>)
       \<or> (\<exists>v. fs' = fs\<lparr>facet_queries := dict_set n v (facet_queries fs)\<rparr>)
       \<or> fs' = fs"
proof -
  from assms obtain meta t where body:
    "(if t = PStr ''terms'' then
         ebind (terms_value info meta) (\<lambda>v.
           Inr (fs\<lparr>facet_fields := dict_set n v (facet_fields fs)\<rparr>))
       else if t = PStr ''date_histogram'' then
         ebind (dates_value info) (\<lambda>v.
           Inr (fs\<lparr>facet_dates := dict_set n v (facet_dates fs)\<rparr>))
       else if t = PStr ''query'' then
         ebind (subscript info ''doc_count'') (\<lambda>c.
           Inr (fs\<lparr>facet_queries := dict_set n c (facet_queries fs)\<rparr>))
       else Inr fs) = Inr fs'"
    unfolding decode_facet_def ebind_eq_Inr by blast
  consider (terms) "t = PStr ''terms''" | (dates) "t = PStr ''date_histogram''"
    | (query) "t = PStr ''query''"
    | (other) "t \<noteq> PStr ''terms''" "t \<noteq> PStr ''date_histogram''" "t \<noteq> PStr ''query''"
    by blast
  then show ?thesis
  proof cases
    case terms
    with body obtain v where "fs' = fs\<lparr>facet_fields := dict_set n v (facet_fields fs)\<rparr>"
      by (cases "terms_value info meta") auto
    then show ?thesis by blast
  next
    case dates
    with body obtain v where "fs' = fs\<lparr>facet_dates := dict_set n v (facet_dates fs)\<rparr>"
      by (cases "dates_value info") auto
    then show ?thesis by blast
  next
    case query
    with body obtain v where "fs' = fs\<lparr>facet_queries := dict_set n v (facet_queries fs)\<rparr>"
      by (cases "subscript info ''doc_count''") auto
    then show ?thesis by blast
  next
    case other
    with body show ?thesis by simp
  qed
qed

lemma decode_facet_other:
  assumes "decode_facet n info fs = Inr fs'" and "n \<noteq> name"
  shows "map_of (facet_fields fs') name = map_of (facet_fields fs) name
       \<and> map_of (facet_dates fs') name = map_of (facet_dates fs) name
       \<and> map_of (facet_queries fs') name = map_of (facet_queries fs) name"
  using decode_facet_cases [OF assms(1)] assms(2)
  by (elim disjE exE) (simp_all add: map_of_dict_set)

lemma decode_facets_other:
  assumes "decode_facets items fs = Inr fs'" and "name \<notin> fst ` set items"
  shows "map_of (facet_fields fs') name = map_of (facet_fields fs) name
       \<and> map_of (facet_dates fs') name = map_of (facet_dates fs) name
       \<and> map_of (facet_queries fs') name = map_of (facet_queries fs) name"
  using assms
proof (induction items arbitrary: fs)
  case Nil
  then show ?case by simp
next
  case (Cons a items)
  obtain n info where a: "a = (n, info)" by (cases a)
  from Cons.prems(1) a obtain fs1 where
    step: "decode_facet n info fs = Inr fs1" and rest: "decode_facets items fs1 = Inr fs'"
    by (auto simp: ebind_eq_Inr)
  from Cons.prems(2) a have "n \<noteq> name" and "name \<notin> fst ` set items" by auto
  with Cons.IH [OF rest] decode_facet_other [OF step] show ?case by simp
qed

text \<open>
  What the loop leaves under a facet name is what the turn for that entry wrote.
\<close>

lemma decode_facets_entry:
  assumes "decode_facets items fs = Inr fs'" and "distinct (map fst items)"
    and "(name, info) \<in> set items"
  shows "\<exists>fs1 fs2. decode_facet name info fs1 = Inr fs2
       \<and> map_of (facet_fields fs') name = map_of (facet_fields fs2) name
       \<and> map_of (facet_dates fs') name = map_of (facet_dates fs2) name
       \<and> map_of (facet_queries fs') name = map_of (facet_queries fs2) name"
  using assms
proof (induction items arbitrary: fs)
  case Nil
  then show ?case by simp
next
  case (Cons a items)
  obtain n i where a: "a = (n, i)" by (cases a)
  from Cons.prems(1) a obtain fs1 where
    step: "decode_facet n i fs = Inr fs1" and rest: "decode_facets items fs1 = Inr fs'"
    by (auto simp: ebind_eq_Inr)
  show ?case
  proof (cases "(name, info) = a")
    case True
    with Cons.prems(2) a have "name \<notin> fst ` set items" by auto
    from decode_facets_other [OF rest this] step True a show ?thesis by auto
  next
    case False
    with Cons.prems(3) have "(name, info) \<in> set items" by simp
    moreover from Cons.prems(2) have "distinct (map fst items)" by simp
    ultimately show ?thesis using Cons.IH [OF rest] by blast
  qed
qed

lemma process_results_aggregations:
  assumes "map_of raw_results ''aggregations'' = Some (PDict items)"
  shows "process_results super raw_results =
     ebind (super raw_results) (\<lambda>results.
     ebind (decode_facets items empty_facets) (\<lambda>fs.
       Inr (dict_set ''facets'' (PDict (facets_dict fs)) results)))"
  using assms
  by (cases "super raw_results"; cases "decode_facets items empty_facets")
     (simp_all add: process_results_def dict_has_def)

lemma process_results_entry:
  assumes "map_of raw_results ''aggregations'' = Some (PDict items)"
    and "distinct (map fst items)"
    and "(name, info) \<in> set items"
    and "process_results super raw_results = Inr results"
  shows "\<exists>fs fs1 fs2. decode_facet name info fs1 = Inr fs2
       \<and> map_of results ''facets'' = Some (PDict (facets_dict fs))
       \<and> map_of (facet_fields fs) name = map_of (facet_fields fs2) name
       \<and> map_of (facet_dates fs) name = map_of (facet_dates fs2) name
       \<and> map_of (facet_queries fs) name = map_of (facet_queries fs2) name"
proof -
  from assms(4) obtain r fs where "super raw_results = Inr r"
    and dec: "decode_facets items empty_facets = Inr fs"
    and res: "results = dict_set ''facets'' (PDict (facets_dict fs)) r"
    unfolding process_results_aggregations [OF assms(1)] ebind_eq_Inr by auto
  from decode_facets_entry [OF dec assms(2) assms(3)] res show ?thesis
    by (auto simp: map_of_dict_set)
qed

subsection \<open>Facets of a response without aggregations\<close>

text \<open>
  C2 (as the code has it). When the raw response has no \<open>aggregations\<close> key and the
  base class has produced its result mapping, the decoded result carries a \<open>facets\<close>
  entry, and that entry is the empty mapping \<open>{}\<close>: the three mappings \<open>fields\<close>,
  \<open>dates\<close> and \<open>queries\<close> are not created.
\<close>

theorem process_results_no_aggregations:
  assumes "\<not> dict_has raw_results ''aggregations''"
    and "super raw_results = Inr results"
  shows "process_results super raw_results = Inr (dict_set ''facets'' (PDict []) results)
       \<and> (\<exists>r. process_results super raw_results = Inr r \<and> dict_get r ''facets'' = Some (PDict []))"
  using assms by (simp add: process_results_def dict_get_def map_of_dict_set)

theorem process_results_no_aggregations_witness:
  "\<not> dict_has [(''hits'', PDict [])] ''aggregations''
   \<and> process_results (\<lambda>raw. Inr [(''results'', PList []), (''hits'', PInt 0)]) [(''hits'', PDict [])]
       = Inr [(''results'', PList []), (''hits'', PInt 0), (''facets'', PDict [])]"
  using process_results_no_aggregations
    [of "[(''hits'', PDict [])]" "\<lambda>raw. Inr [(''results'', PList []), (''hits'', PInt 0)]"
        "[(''results'', PList []), (''hits'', PInt 0)]"]
  by (simp add: dict_has_def)

text \<open>
  The claim as stated, that the facets entry then holds the three empty mappings, fails:
  for the empty response the facets entry is \<open>{}\<close>.
\<close>

theorem facets_three_empty_mappings_counterexample:
  "\<not> (\<forall>super raw_results results.
        \<not> dict_has raw_results ''aggregations'' \<and> super raw_results = Inr results \<longrightarrow>
        (\<exists>r. process_results super raw_results = Inr r
           \<and> dict_get r ''facets'' = Some (PDict (facets_dict empty_facets))))"
proof
  assume h: "\<forall>super raw_results results.
        \<not> dict_has raw_results ''aggregations'' \<and> super raw_results = Inr results \<longrightarrow>
        (\<exists>r. process_results super raw_results = Inr r
           \<and> dict_get r ''facets'' = Some (PDict (facets_dict empty_facets)))"
  have "\<not> dict_has [] ''aggregations'' \<and> (\<lambda>raw. Inr []) ([] :: dict) = (Inr [] :: error + dict)
     \<longrightarrow> (\<exists>r. process_results (\<lambda>raw. Inr []) [] = Inr r
           \<and> dict_get r ''facets'' = Some (PDict (facets_dict empty_facets)))"
    using h [rule_format, of "[]" "\<lambda>raw. Inr []" "[]"] by simp
  then show False
    by (simp add: process_results_def dict_has_def dict_get_def facets_dict_def)
qed

subsection \<open>The type restriction of a similarity query\<close>

text \<open>
  C3 (as the code has it). For a non-empty explicit list of models the type restriction
  holds the canonical type names of those models, sorted: one name for every model of the
  list, so a model listed twice gives its name twice. The restriction is the last of the
  narrowing queries.
\<close>

theorem model_choices_explicit:
  assumes "models = Some ms" and "ms \<noteq> []"
  shows "model_choices s models limit_to_registered_models = sort (map (get_model_ct s) ms)
       \<and> sorted (model_choices s models limit_to_registered_models)
       \<and> length (model_choices s models limit_to_registered_models) = length ms
       \<and> set (model_choices s models limit_to_registered_models) = get_model_ct s ` set ms
       \<and> (\<exists>nq. narrow_queries s additional_query_string models limit_to_registered_models =
             nq @ [PDict [(''terms'', PDict [(DJANGO_CT s,
                      PList (map PStr (sort (map (get_model_ct s) ms))))])]])"
  using assms by (simp add: model_choices_def narrow_queries_def Let_def sort_key_eq_Nil)

theorem model_choices_explicit_witness:
  "model_choices demo_site (Some [''core.mockmodel'', ''core.anothermockmodel'', ''core.mockmodel'']) None
     = [''core.anothermockmodel'', ''core.mockmodel'', ''core.mockmodel'']"
  using model_choices_explicit [of "Some [''core.mockmodel'', ''core.anothermockmodel'', ''core.mockmodel'']"
      "[''core.mockmodel'', ''core.anothermockmodel'', ''core.mockmodel'']" demo_site None None]
  by (simp add: demo_site_def)

text \<open>
  The claim as stated, that each canonical name appears at most once, fails for a list that
  names the same model twice.
\<close>

theorem model_choices_deduplicated_counterexample:
  "model_choices demo_site (Some [''core.mockmodel'', ''core.mockmodel'']) None
     = [''core.mockmodel'', ''core.mockmodel'']
   \<and> \<not> distinct (model_choices demo_site (Some [''core.mockmodel'', ''core.mockmodel'']) None)
   \<and> mlt_query demo_site ''text'' ''core.mockmodel.1'' None
        (Some [''core.mockmodel'', ''core.mockmodel'']) None
     = PDict [(''query'', PDict [(''bool'', PDict
         [(''must'', PDict [(''more_like_this'', PDict [(''fields'', PList [PStr ''text'']),
              (''like'', PList [PDict [(''_id'', PStr ''core.mockmodel.1'')]])])]),
          (''filter'', PDict [(''bool'', PDict [(''must'', PList
              [PDict [(''terms'', PDict [(''django_ct'',
                  PList [PStr ''core.mockmodel'', PStr ''core.mockmodel''])])]])])])])])]"
  by (simp add: model_choices_def narrow_queries_def mlt_query_def mlt_clause_def demo_site_def)

subsection \<open>The interval of a date histogram\<close>

text \<open>
  C4. The interval of a date histogram facet with the gap unit \<open>g\<close> is the lowercased
  unit when no multiplier is given, when the multiplier is 1, or when the lowercased unit is
  \<open>month\<close> or \<open>year\<close>; otherwise it is the multiplier in decimal followed by the first
  letter of the lowercased unit. That string is the \<open>interval\<close> of the compiled
  \<open>date_histogram\<close> clause.
\<close>

theorem date_interval_rule:
  assumes "gap_by v = Some g"
  shows "date_interval v =
           Inr (case gap_amount v of
                  None \<Rightarrow> lower g
                | Some a \<Rightarrow> if a = 1 \<or> lower g = ''month'' \<or> lower g = ''year'' then lower g
                            else str_of_int a @ take 1 (lower g))
       \<and> date_facet_clause from_python facet_fieldname v =
           ebind (date_interval v) (\<lambda>interval. Inr
             [(''meta'', PDict [(''_type'', PStr ''date_histogram'')]),
              (''date_histogram'', PDict [(''field'', PStr facet_fieldname),
                                          (''interval'', PStr interval)]),
              (''aggs'', PDict [(facet_fieldname, PDict [(''date_range'', PDict
                 [(''field'', PStr facet_fieldname),
                  (''ranges'', PList [PDict
                     [(''from'', from_python (case start_date v of None \<Rightarrow> PNone | Some d \<Rightarrow> d)),
                      (''to'', from_python (case end_date v of None \<Rightarrow> PNone | Some d \<Rightarrow> d))]])])])])])"
  using assms by (simp add: date_interval_def date_facet_clause_def Let_def split: option.splits)

text \<open>
  The examples: (day, 2) gives \<open>2d\<close>, (month, 3) gives \<open>month\<close>, (year, 5) gives
  \<open>year\<close>.
\<close>

theorem date_interval_rule_witness:
  "date_interval \<lparr>gap_by = Some ''day'', gap_amount = Some 2, start_date = None, end_date = None\<rparr>
     = Inr ''2d''
   \<and> date_interval \<lparr>gap_by = Some ''month'', gap_amount = Some 3, start_date = None, end_date = None\<rparr>
     = Inr ''month''
   \<and> date_interval \<lparr>gap_by = Some ''year'', gap_amount = Some 5, start_date = None, end_date = None\<rparr>
     = Inr ''year''
   \<and> date_interval \<lparr>gap_by = Some ''Week'', gap_amount = None, start_date = None, end_date = None\<rparr>
     = Inr ''week''"
  using date_interval_rule
      [of "\<lparr>gap_by = Some ''day'', gap_amount = Some 2, start_date = None, end_date = None\<rparr>" "''day''"]
    date_interval_rule
      [of "\<lparr>gap_by = Some ''month'', gap_amount = Some 3, start_date = None, end_date = None\<rparr>" "''month''"]
    date_interval_rule
      [of "\<lparr>gap_by = Some ''year'', gap_amount = Some 5, start_date = None, end_date = None\<rparr>" "''year''"]
    date_interval_rule
      [of "\<lparr>gap_by = Some ''Week'', gap_amount = None, start_date = None, end_date = None\<rparr>" "''Week''"]
  by (simp add: lower_def lower_char_def str_of_int_def digits.simps)

subsection \<open>Terms facets and the reverse count order\<close>

lemma sorted_by_count_ints:
  "sorted_by_count (map (\<lambda>x. (fst x, PInt (snd x))) bs)
     = Inr (map (\<lambda>x. (fst x, PInt (snd x))) (sort_key snd bs))"
  by (simp add: sorted_by_count_def list_all_iff sort_key_map)

lemma terms_value_ints:
  assumes "map_of info ''buckets'' = Some (PList inds)"
    and "map term_pair inds = map (\<lambda>x. Inr (fst x, PInt (snd x))) bs"
  shows "terms_value (PDict info) (PDict meta) =
     Inr (term_counts (if map_of meta ''order'' = Some (PStr ''reverse_count'')
                       then sort_key snd bs else bs))"
proof -
  from assms(2) have "map term_pair inds = map Inr (map (\<lambda>x. (fst x, PInt (snd x))) bs)"
    by simp
  then have "emap term_pair inds = Inr (map (\<lambda>x. (fst x, PInt (snd x))) bs)"
    by (rule emap_Inr)
  with assms(1) show ?thesis
    by (simp add: terms_value_def dict_has_def dict_get_def sorted_by_count_ints tuples_def
        term_counts_def comp_def)
qed

text \<open>
  C5. Take a terms aggregation of the response whose buckets carry the terms and the integer
  counts \<open>bs\<close>. Its turn of the loop stores, under the facet name in \<open>fields\<close>, the
  (term, count) pairs: sorted by ascending count (a stable sort) when the metadata has
  \<open>order\<close> equal to \<open>reverse_count\<close>, in bucket order otherwise. When the whole response
  decodes, that list is what \<open>facets['fields']\<close> holds under the name. On the compiling
  side, a terms facet given the option \<open>order = reverse_count\<close> carries it in its metadata.
\<close>

theorem terms_reverse_count:
  assumes "map_of info ''meta'' = Some (PDict meta)"
    and "map_of meta ''_type'' = Some (PStr ''terms'')"
    and "map_of info ''buckets'' = Some (PList inds)"
    and "map term_pair inds = map (\<lambda>x. Inr (fst x, PInt (snd x))) bs"
  shows "decode_facet name (PDict info) fs0 =
           Inr (fs0\<lparr>facet_fields := dict_set name
                  (term_counts (if map_of meta ''order'' = Some (PStr ''reverse_count'')
                                then sort_key snd bs else bs)) (facet_fields fs0)\<rparr>)
       \<and> (map_of raw_results ''aggregations'' = Some (PDict items) \<and> distinct (map fst items)
            \<and> (name, PDict info) \<in> set items
            \<and> process_results super raw_results = Inr results \<longrightarrow>
          (\<exists>fs fields. map_of results ''facets'' = Some (PDict fs)
             \<and> map_of fs ''fields'' = Some (PDict fields)
             \<and> map_of fields name =
                 Some (term_counts (if map_of meta ''order'' = Some (PStr ''reverse_count'')
                                    then sort_key snd bs else bs))))
       \<and> (dict_get extra_options ''order'' = Some (PStr ''reverse_count'') \<longrightarrow>
            map_of (terms_facet get_facet_fieldname name extra_options) ''meta''
              = Some (PDict [(''_type'', PStr ''terms''), (''order'', PStr ''reverse_count'')]))"
proof (intro conjI impI)
  let ?v = "term_counts (if map_of meta ''order'' = Some (PStr ''reverse_count'')
                         then sort_key snd bs else bs)"
  have tv: "terms_value (PDict info) (PDict meta) = Inr ?v"
    using assms(3,4) by (rule terms_value_ints)
  show turn: "decode_facet name (PDict info) fs0 =
      Inr (fs0\<lparr>facet_fields := dict_set name ?v (facet_fields fs0)\<rparr>)" for fs0
    using assms(1,2) tv by (simp add: decode_facet_def)
  {
    assume h: "map_of raw_results ''aggregations'' = Some (PDict items) \<and> distinct (map fst items)
            \<and> (name, PDict info) \<in> set items
            \<and> process_results super raw_results = Inr results"
    then obtain fs fs1 fs2 where "decode_facet name (PDict info) fs1 = Inr fs2"
      and "map_of results ''facets'' = Some (PDict (facets_dict fs))"
      and "map_of (facet_fields fs) name = map_of (facet_fields fs2) name"
      using process_results_entry [of raw_results items name "PDict info" super results]
      by blast
    with turn [of fs1] have "map_of results ''facets'' = Some (PDict (facets_dict fs))"
      and "map_of (facets_dict fs) ''fields'' = Some (PDict (facet_fields fs))"
      and "map_of (facet_fields fs) name = Some ?v"
      by (auto simp: facets_dict_def map_of_dict_set)
    then show "\<exists>fs fields. map_of results ''facets'' = Some (PDict fs)
             \<and> map_of fs ''fields'' = Some (PDict fields) \<and> map_of fields name = Some ?v"
      by blast
  }
  {
    assume "dict_get extra_options ''order'' = Some (PStr ''reverse_count'')"
    then show "map_of (terms_facet get_facet_fieldname name extra_options) ''meta''
              = Some (PDict [(''_type'', PStr ''terms''), (''order'', PStr ''reverse_count'')])"
      by (simp add: terms_facet_def Let_def map_of_dict_set split: option.splits)
  }
qed

theorem terms_reverse_count_witness:
  "process_results (\<lambda>raw. Inr [(''hits'', PInt 3)])
     [(''aggregations'', PDict [(''author'', PDict
        [(''meta'', PDict [(''_type'', PStr ''terms''), (''order'', PStr ''reverse_count'')]),
         (''buckets'', PList [PDict [(''key'', PStr ''A''), (''doc_count'', PInt 5)],
                              PDict [(''key'', PStr ''B''), (''doc_count'', PInt 2)],
                              PDict [(''key'', PStr ''C''), (''doc_count'', PInt 9)]])])])]
   = Inr [(''hits'', PInt 3),
          (''facets'', PDict [(''fields'', PDict [(''author'',
              PList [PTuple [PStr ''B'', PInt 2], PTuple [PStr ''A'', PInt 5],
                     PTuple [PStr ''C'', PInt 9]])]),
            (''dates'', PDict []), (''queries'', PDict [])])]
   \<and> term_counts (sort_key snd [(PStr ''A'', 5), (PStr ''B'', 2), (PStr ''C'', 9)])
       = PList [PTuple [PStr ''B'', PInt 2], PTuple [PStr ''A'', PInt 5],
                PTuple [PStr ''C'', PInt 9]]
   \<and> map_of (terms_facet (\<lambda>f. f) ''author'' [(''order'', PStr ''reverse_count'')]) ''meta''
       = Some (PDict [(''_type'', PStr ''terms''), (''order'', PStr ''reverse_count'')])"
proof -
  let ?meta = "[(''_type'', PStr ''terms''), (''order'', PStr ''reverse_count'')]"
  let ?inds = "[PDict [(''key'', PStr ''A''), (''doc_count'', PInt 5)],
                PDict [(''key'', PStr ''B''), (''doc_count'', PInt 2)],
                PDict [(''key'', PStr ''C''), (''doc_count'', PInt 9)]]"
  let ?info = "[(''meta'', PDict ?meta), (''buckets'', PList ?inds)]"
  let ?bs = "[(PStr ''A'', 5), (PStr ''B'', 2), (PStr ''C'', 9 :: int)]"
  let ?items = "[(''author'', PDict ?info)]"
  let ?raw = "[(''aggregations'', PDict ?items)]"
  let ?results = "[(''hits'', PInt 3),
          (''facets'', PDict [(''fields'', PDict [(''author'',
              PList [PTuple [PStr ''B'', PInt 2], PTuple [PStr ''A'', PInt 5],
                     PTuple [PStr ''C'', PInt 9]])]),
            (''dates'', PDict []), (''queries'', PDict [])])]"
  have h1: "map_of ?info ''meta'' = Some (PDict ?meta)" by simp
  have h2: "map_of ?meta ''_type'' = Some (PStr ''terms'')" by simp
  have h3: "map_of ?info ''buckets'' = Some (PList ?inds)" by simp
  have h4: "map term_pair ?inds = map (\<lambda>x. Inr (fst x, PInt (snd x))) ?bs"
    by (simp add: term_pair_def)
  have h5: "dict_get [(''order'', PStr ''reverse_count'')] ''order'' = Some (PStr ''reverse_count'')"
    by (simp add: dict_get_def)
  have h6: "map_of ?raw ''aggregations'' = Some (PDict ?items) \<and> distinct (map fst ?items)
     \<and> (''author'', PDict ?info) \<in> set ?items" by simp
  have h7: "process_results (\<lambda>raw. Inr [(''hits'', PInt 3)]) ?raw = Inr ?results"
    by (simp add: process_results_def dict_has_def decode_facet_def terms_value_def
        term_pair_def dict_get_def sorted_by_count_def tuples_def empty_facets_def
        facets_dict_def)
  from terms_reverse_count [OF h1 h2 h3 h4, of "''author''" empty_facets ?raw ?items
      "\<lambda>raw. Inr [(''hits'', PInt 3)]" ?results
      "[(''order'', PStr ''reverse_count'')]" "\<lambda>f. f"] h5 h6 h7
  show ?thesis
    by (simp add: term_counts_def)
qed

subsection \<open>Floating-point division and the timestamp\<close>

lemma round_half_even_error: "\<bar>of_int (round_half_even q) - q\<bar> \<le> 1 / 2"
proof -
  define r where "r = q - of_int \<lfloor>q\<rfloor>"
  have r: "0 \<le> r" "r < 1" unfolding r_def by linarith+
  have q: "q = of_int \<lfloor>q\<rfloor> + r" by (simp add: r_def)
  consider "r < 1 / 2" | "1 / 2 < r" | "r = 1 / 2" by linarith
  then show ?thesis
  proof cases
    case 1
    then have "round_half_even q = \<lfloor>q\<rfloor>"
      by (simp add: round_half_even_def Let_def r_def)
    with 1 r q show ?thesis by linarith
  next
    case 2
    then have "round_half_even q = \<lfloor>q\<rfloor> + 1"
      by (simp add: round_half_even_def Let_def r_def)
    then have "of_int (round_half_even q) - q = 1 - r" using q by simp
    with 2 r show ?thesis by linarith
  next
    case 3
    then have "round_half_even q = \<lfloor>q\<rfloor> \<or> round_half_even q = \<lfloor>q\<rfloor> + 1"
      by (simp add: round_half_even_def Let_def r_def)
    then have "of_int (round_half_even q) - q = - r \<or> of_int (round_half_even q) - q = 1 - r"
      using q by auto
    with 3 show ?thesis by auto
  qed
qed

lemma round_half_even_near:
  assumes "\<bar>z - of_int K\<bar> < 1 / 2"
  shows "round_half_even z = K"
proof -
  have "\<bar>(of_int (round_half_even z) :: rat) - of_int K\<bar> < 1"
    using round_half_even_error [of z] assms by linarith
  then have "\<bar>(of_int (round_half_even z - K) :: rat)\<bar> < 1" by simp
  then have "\<bar>round_half_even z - K\<bar> < 1"
    by (metis of_int_abs of_int_less_1_iff)
  then show ?thesis by linarith
qed

lemma round_half_even_of_int: "round_half_even (of_int k) = k"
  by (rule round_half_even_near) simp

lemma exponent_le:
  assumes "\<bar>x\<bar> < 2 ^ Suc E"
  shows "exponent x \<le> int E"
proof (cases "1 \<le> \<bar>x\<bar>")
  case True
  let ?m = "\<lfloor>\<bar>x\<bar>\<rfloor>"
  from True have pos: "0 < ?m" by linarith
  have "(of_int ?m :: rat) \<le> \<bar>x\<bar>" by linarith
  with assms have "(of_int ?m :: rat) < 2 ^ Suc E" by linarith
  then have "(of_int ?m :: rat) < of_int (2 ^ Suc E)" by simp
  then have lt: "?m < 2 ^ Suc E" by (simp only: of_int_less_iff)
  from bitlen_bounds [OF pos] have "2 ^ nat (bitlen ?m - 1) \<le> ?m" by simp
  with lt have "(2::int) ^ nat (bitlen ?m - 1) < 2 ^ Suc E" by linarith
  then have "nat (bitlen ?m - 1) < Suc E"
    by (rule power_less_imp_less_exp [of 2, rotated]) simp
  with True show ?thesis by (simp add: exponent_def)
next
  case False
  then show ?thesis
    using bitlen_nonneg [of "\<lceil>1 / \<bar>x\<bar>\<rceil> - 1"] by (simp add: exponent_def)
qed

lemma pow2_nonpos: "e \<le> 0 \<Longrightarrow> pow2 e = 1 / 2 ^ nat (- e)"
  by (auto simp: pow2_def)

lemma binary64_error:
  assumes "\<bar>x\<bar> < 2 ^ Suc E" and "E \<le> 52"
  shows "\<bar>binary64 x - x\<bar> \<le> 1 / 2 ^ (53 - E)"
proof (cases "x = 0")
  case True
  then show ?thesis by (simp add: binary64_def)
next
  case False
  let ?e = "exponent x"
  let ?k = "nat (52 - ?e)"
  let ?u = "pow2 (?e - 52)"
  from exponent_le [OF assms(1)] assms(2) have e: "?e \<le> int E" "?e \<le> 52" by simp_all
  then have u: "?u = 1 / 2 ^ ?k" by (simp add: pow2_nonpos)
  have upos: "0 < ?u" by (simp add: u)
  have "binary64 x - x = (of_int (round_half_even (x / ?u)) - x / ?u) * ?u"
    using False upos by (simp add: binary64_def Let_def algebra_simps)
  then have "\<bar>binary64 x - x\<bar> = \<bar>of_int (round_half_even (x / ?u)) - x / ?u\<bar> * ?u"
    using upos by (simp add: abs_mult)
  also have "\<dots> \<le> (1 / 2) * ?u"
    using round_half_even_error [of "x / ?u"] upos by (simp add: mult_right_mono)
  also have "\<dots> = 1 / 2 ^ Suc ?k" by (simp add: u)
  also have "\<dots> \<le> 1 / 2 ^ (53 - E)"
  proof -
    from e have "53 - E \<le> Suc ?k" by linarith
    then have "(2::rat) ^ (53 - E) \<le> 2 ^ Suc ?k"
      by (intro power_increasing) simp_all
    then show ?thesis by (simp add: divide_simps)
  qed
  finally show ?thesis .
qed

lemma binary64_of_int:
  assumes "\<bar>m\<bar> < 2 ^ 53"
  shows "binary64 (of_int m) = of_int m"
proof (cases "m = 0")
  case True
  then show ?thesis by (simp add: binary64_def)
next
  case False
  let ?x = "of_int m :: rat"
  let ?e = "exponent ?x"
  let ?k = "nat (52 - ?e)"
  from assms have "\<bar>?x\<bar> < 2 ^ Suc 52"
    by (metis of_int_abs of_int_less_numeral_power_cancel_iff eval_nat_numeral(3) numeral_eq_Suc pred_numeral_simps(3))
  from exponent_le [OF this] have e: "?e \<le> 52" by simp
  then have u: "pow2 (?e - 52) = 1 / 2 ^ ?k" by (simp add: pow2_nonpos)
  have "?x / pow2 (?e - 52) = of_int (m * 2 ^ ?k)" by (simp add: u)
  then have "round_half_even (?x / pow2 (?e - 52)) = m * 2 ^ ?k"
    by (simp only: round_half_even_of_int)
  then show ?thesis using False by (simp add: binary64_def Let_def u)
qed

lemma utc_parts_of_int:
  "utc_parts (of_int m) = (m, 0)"
  by (simp add: utc_parts_def binary64_def round_half_even_def)

lemma utc_parts_milliseconds:
  assumes "\<bar>n\<bar> < 8589934592000"
  shows "of_int (fst (utc_parts (binary64 (of_int n / 1000))))
           + of_int (snd (utc_parts (binary64 (of_int n / 1000)))) / 1000000
         = (of_int n / 1000 :: rat)
       \<and> \<bar>fst (utc_parts (binary64 (of_int n / 1000)))\<bar> \<le> 8589934593"
proof -
  define x :: rat where "x = of_int n / 1000"
  define d where "d = binary64 x"
  define t where "t = (if 0 \<le> d then \<lfloor>d\<rfloor> else \<lceil>d\<rceil>)"
  define y where "y = (d - of_int t) * 1000000"
  define K where "K = 1000 * n - 1000000 * t"
  from assms have "\<bar>(of_int n :: rat)\<bar> < 8589934592000"
    by (metis of_int_abs of_int_less_numeral_iff)
  then have xb: "\<bar>x\<bar> < 8589934592" by (simp add: x_def)
  then have "\<bar>x\<bar> < 2 ^ Suc 32" by simp
  from binary64_error [OF this] have dx: "\<bar>d - x\<bar> \<le> 1 / 2097152"
    by (simp add: d_def)
  have dt: "\<bar>d - of_int t\<bar> < 1" unfolding t_def by (auto; linarith)
  then have "\<bar>y\<bar> < 1000000" by (simp add: y_def abs_mult)
  then have "\<bar>y\<bar> < 2 ^ Suc 19" by simp
  from binary64_error [OF this] have fy: "\<bar>binary64 y - y\<bar> \<le> 1 / 17179869184"
    by simp
  have "y - of_int K = 1000000 * (d - x)"
    by (simp add: y_def K_def x_def algebra_simps)
  then have "\<bar>y - of_int K\<bar> = \<bar>1000000\<bar> * \<bar>d - x\<bar>" by (simp only: abs_mult)
  then have "\<bar>y - of_int K\<bar> = 1000000 * \<bar>d - x\<bar>" by simp
  with dx have "\<bar>y - of_int K\<bar> \<le> 1000000 / 2097152" by simp
  with fy have "\<bar>binary64 y - of_int K\<bar> < 1 / 2" by linarith
  then have us: "round_half_even (binary64 y) = K" by (rule round_half_even_near)
  have parts: "utc_parts d =
      (if 1000000 \<le> K then (t + 1, K - 1000000)
       else if K < 0 then (t - 1, K + 1000000) else (t, K))"
    unfolding utc_parts_def Let_def t_def [symmetric] y_def [symmetric] us by (rule refl)
  have sum: "of_int (fst (utc_parts d)) + of_int (snd (utc_parts d)) / 1000000 = x"
    by (simp add: parts K_def x_def field_simps)
  have "\<bar>of_int t\<bar> \<le> \<bar>d\<bar>" unfolding t_def by (auto; linarith)
  with dx xb have "\<bar>(of_int t :: rat)\<bar> < 8589934593" by linarith
  then have "\<bar>t\<bar> < 8589934593"
    by (metis of_int_abs of_int_less_numeral_iff)
  then have tb: "\<bar>t\<bar> \<le> 8589934592" by linarith
  have "\<bar>fst (utc_parts d)\<bar> \<le> 8589934593"
    using tb by (auto simp: parts)
  with sum show ?thesis by (simp add: d_def x_def)
qed

lemma int_truediv_1000_finite:
  assumes "\<bar>n\<bar> < 2 ^ 60"
  shows "int_truediv_1000 n = Inr (binary64 (of_int n / 1000))"
proof -
  from assms have "\<bar>(of_int n :: rat)\<bar> < 2 ^ 60"
    by (metis of_int_abs of_int_less_numeral_power_cancel_iff)
  then have "\<bar>of_int n / 1000 :: rat\<bar> < 2 ^ 60" by simp
  moreover have "(2 :: rat) ^ 60 \<le> 2 ^ 1024 - 2 ^ 970" by simp
  ultimately have "\<not> 2 ^ 1024 - 2 ^ 970 \<le> \<bar>of_int n / 1000 :: rat\<bar>" by linarith
  then show ?thesis by (simp only: int_truediv_1000_def if_False)
qed

lemma utcfromtimestamp_whole_second:
  assumes "- 62135596800 \<le> m" and "m < 253402300800"
  shows "utcfromtimestamp (binary64 (of_int m)) = Inr (PDatetime (of_int m))"
proof -
  from assms have "\<bar>m\<bar> < 2 ^ 53" by simp
  then have "binary64 (of_int m) = of_int m" by (rule binary64_of_int)
  with assms show ?thesis by (simp add: utcfromtimestamp_def utc_parts_of_int)
qed

lemma utcfromtimestamp_milliseconds:
  assumes "\<bar>n\<bar> < 8589934592000"
  shows "utcfromtimestamp (binary64 (of_int n / 1000)) = Inr (PDatetime (of_int n / 1000))"
proof -
  let ?p = "utc_parts (binary64 (of_int n / 1000))"
  from utc_parts_milliseconds [OF assms]
  have sum: "of_int (fst ?p) + of_int (snd ?p) / 1000000 = (of_int n / 1000 :: rat)"
    and b: "\<bar>fst ?p\<bar> \<le> 8589934593" by simp_all
  from b have "- 62135596800 \<le> fst ?p \<and> fst ?p < 253402300800" by linarith
  with sum show ?thesis by (simp add: utcfromtimestamp_def Let_def)
qed

subsection \<open>Date histogram buckets\<close>

lemma date_pair_exact:
  assumes "subscript i ''key'' = Inr (PInt ms)" and "subscript i ''doc_count'' = Inr c"
    and "(ms mod 1000 = 0 \<and> - 62135596800000 \<le> ms \<and> ms < 253402300800000)
         \<or> \<bar>ms\<bar> < 8589934592000"
  shows "date_pair i = Inr (PDatetime (of_int ms / 1000), c)"
proof -
  have small: "\<bar>ms\<bar> < 2 ^ 60" using assms(3) by auto
  have "utcfromtimestamp (binary64 (of_int ms / 1000)) = Inr (PDatetime (of_int ms / 1000))"
    using assms(3)
  proof
    assume w: "ms mod 1000 = 0 \<and> - 62135596800000 \<le> ms \<and> ms < 253402300800000"
    define m where "m = ms div 1000"
    from w mult_div_mod_eq [of 1000 ms] have ms: "ms = 1000 * m" unfolding m_def by linarith
    then have q: "(of_int ms / 1000 :: rat) = of_int m" by simp
    from w ms have "- 62135596800 \<le> m" and "m < 253402300800" by linarith+
    then show ?thesis unfolding q by (rule utcfromtimestamp_whole_second)
  next
    assume "\<bar>ms\<bar> < 8589934592000"
    then show ?thesis by (rule utcfromtimestamp_milliseconds)
  qed
  with assms(1,2) int_truediv_1000_finite [OF small] show ?thesis
    by (simp add: date_pair_def)
qed

lemma dates_value_exact:
  assumes "map_of info ''buckets'' = Some (PList inds)"
    and "map (\<lambda>i. (subscript i ''key'', subscript i ''doc_count'')) inds
           = map (\<lambda>x. (Inr (PInt (fst x)), Inr (snd x))) bs"
    and "\<forall>x\<in>set bs. (fst x mod 1000 = 0 \<and> - 62135596800000 \<le> fst x
                         \<and> fst x < 253402300800000)
                      \<or> \<bar>fst x\<bar> < 8589934592000"
  shows "dates_value (PDict info) = Inr (date_counts bs)"
proof -
  from assms(2,3)
  have "map date_pair inds = map Inr (map (\<lambda>x. (PDatetime (of_int (fst x) / 1000), snd x)) bs)"
  proof (induction inds arbitrary: bs)
    case Nil
    then show ?case by simp
  next
    case (Cons i inds)
    from Cons.prems(1) obtain b bs' where bs: "bs = b # bs'" by (cases bs) auto
    with Cons.prems have "subscript i ''key'' = Inr (PInt (fst b))"
      and "subscript i ''doc_count'' = Inr (snd b)"
      and "(fst b mod 1000 = 0 \<and> - 62135596800000 \<le> fst b \<and> fst b < 253402300800000)
           \<or> \<bar>fst b\<bar> < 8589934592000"
      by auto
    then have "date_pair i = Inr (PDatetime (of_int (fst b) / 1000), snd b)"
      by (rule date_pair_exact)
    moreover from Cons.prems bs Cons.IH [of bs']
    have "map date_pair inds = map Inr (map (\<lambda>x. (PDatetime (of_int (fst x) / 1000), snd x)) bs')"
      by simp
    ultimately show ?case using bs by simp
  qed
  then have "emap date_pair inds = Inr (map (\<lambda>x. (PDatetime (of_int (fst x) / 1000), snd x)) bs)"
    by (rule emap_Inr)
  with assms(1) show ?thesis
    by (simp add: dates_value_def tuples_def date_counts_def comp_def)
qed

text \<open>
  C6. Take a date histogram aggregation whose buckets carry the integer millisecond keys and
  the counts \<open>bs\<close>, each key either a whole number of seconds within the years that a
  timestamp can have, or less than \<open>2 ^ 33\<close> seconds (some 272 years) from the epoch.
  Its turn of the loop stores, under the facet name in \<open>dates\<close>, for each bucket
  the timestamp of epoch second key / 1000, exactly, with the bucket's count; when the whole
  response decodes, that list is what \<open>facets['dates']\<close> holds under the name. The
  division is the floating-point one and the conversion rounds to microseconds; on these
  keys the two roundings cancel. For every integer key (below \<open>2 ^ 60\<close> in magnitude) the
  value converted is the float nearest to key / 1000, never the key itself.
\<close>

theorem date_keys_divided_by_1000:
  assumes "map_of info ''meta'' = Some (PDict meta)"
    and "map_of meta ''_type'' = Some (PStr ''date_histogram'')"
    and "map_of info ''buckets'' = Some (PList inds)"
    and "map (\<lambda>i. (subscript i ''key'', subscript i ''doc_count'')) inds
           = map (\<lambda>x. (Inr (PInt (fst x)), Inr (snd x))) bs"
    and "\<forall>x\<in>set bs. (fst x mod 1000 = 0 \<and> - 62135596800000 \<le> fst x
                         \<and> fst x < 253402300800000)
                      \<or> \<bar>fst x\<bar> < 8589934592000"
  shows "decode_facet name (PDict info) fs0 =
           Inr (fs0\<lparr>facet_dates := dict_set name (date_counts bs) (facet_dates fs0)\<rparr>)
       \<and> (map_of raw_results ''aggregations'' = Some (PDict items) \<and> distinct (map fst items)
            \<and> (name, PDict info) \<in> set items
            \<and> process_results super raw_results = Inr results \<longrightarrow>
          (\<exists>fs dates. map_of results ''facets'' = Some (PDict fs)
             \<and> map_of fs ''dates'' = Some (PDict dates)
             \<and> map_of dates name = Some (date_counts bs)))
       \<and> (subscript individual ''key'' = Inr (PInt ms)
            \<and> subscript individual ''doc_count'' = Inr c \<and> \<bar>ms\<bar> < 2 ^ 60 \<longrightarrow>
          date_pair individual =
            ebind (utcfromtimestamp (binary64 (of_int ms / 1000))) (\<lambda>ts. Inr (ts, c)))"
proof (intro conjI impI)
  have dv: "dates_value (PDict info) = Inr (date_counts bs)"
    using assms(3,4,5) by (rule dates_value_exact)
  show turn: "decode_facet name (PDict info) fs0 =
      Inr (fs0\<lparr>facet_dates := dict_set name (date_counts bs) (facet_dates fs0)\<rparr>)" for fs0
    using assms(1,2) dv by (simp add: decode_facet_def)
  assume h: "map_of raw_results ''aggregations'' = Some (PDict items) \<and> distinct (map fst items)
            \<and> (name, PDict info) \<in> set items
            \<and> process_results super raw_results = Inr results"
  then obtain fs fs1 fs2 where "decode_facet name (PDict info) fs1 = Inr fs2"
    and "map_of results ''facets'' = Some (PDict (facets_dict fs))"
    and "map_of (facet_dates fs) name = map_of (facet_dates fs2) name"
    using process_results_entry [of raw_results items name "PDict info" super results]
    by blast
  with turn [of fs1] have "map_of results ''facets'' = Some (PDict (facets_dict fs))"
    and "map_of (facets_dict fs) ''dates'' = Some (PDict (facet_dates fs))"
    and "map_of (facet_dates fs) name = Some (date_counts bs)"
    by (auto simp: facets_dict_def map_of_dict_set)
  then show "\<exists>fs dates. map_of results ''facets'' = Some (PDict fs)
             \<and> map_of fs ''dates'' = Some (PDict dates) \<and> map_of dates name = Some (date_counts bs)"
    by blast
next
  assume "subscript individual ''key'' = Inr (PInt ms)
            \<and> subscript individual ''doc_count'' = Inr c \<and> \<bar>ms\<bar> < 2 ^ 60"
  then show "date_pair individual =
      ebind (utcfromtimestamp (binary64 (of_int ms / 1000))) (\<lambda>ts. Inr (ts, c))"
    by (cases "utcfromtimestamp (binary64 (of_int ms / 1000))")
       (simp_all add: date_pair_def int_truediv_1000_finite)
qed

text \<open>
  Outside that range the float nearest to key / 1000 need not round back to the key's
  millisecond: the key 95617584000123 (in the year 5000) decodes to microsecond 123001.
\<close>

lemma far_future_key_rounds:
  "utcfromtimestamp (binary64 (95617584000123 / 1000))
     = Inr (PDatetime (95617584000123001 / 1000000))"
  by code_simp

text \<open>
  The key 1000000000000 decodes to the timestamp of epoch second 1000000000, and the key
  1500000000123 to 1500000000.123; the far key 95617584000123 to microsecond 123001.
\<close>

theorem date_keys_divided_by_1000_witness:
  "process_results (\<lambda>raw. Inr [(''hits'', PInt 3)])
     [(''aggregations'', PDict [(''pub_date'', PDict
        [(''meta'', PDict [(''_type'', PStr ''date_histogram'')]),
         (''buckets'', PList [PDict [(''key'', PInt 1000000000000), (''doc_count'', PInt 3)],
                              PDict [(''key'', PInt 1500000000123), (''doc_count'', PInt 1)]])])])]
   = Inr [(''hits'', PInt 3),
          (''facets'', PDict [(''fields'', PDict []),
            (''dates'', PDict [(''pub_date'',
               PList [PTuple [PDatetime 1000000000, PInt 3],
                      PTuple [PDatetime (1500000000123 / 1000), PInt 1]])]),
            (''queries'', PDict [])])]
   \<and> PDatetime 1000000000 \<noteq> PDatetime 1000000000000
   \<and> date_pair (PDict [(''key'', PInt 95617584000123), (''doc_count'', PInt 2)])
       = Inr (PDatetime (95617584000123001 / 1000000), PInt 2)"
proof -
  let ?meta = "[(''_type'', PStr ''date_histogram'')]"
  let ?inds = "[PDict [(''key'', PInt 1000000000000), (''doc_count'', PInt 3)],
                PDict [(''key'', PInt 1500000000123), (''doc_count'', PInt 1)]]"
  let ?info = "[(''meta'', PDict ?meta), (''buckets'', PList ?inds)]"
  let ?bs = "[(1000000000000 :: int, PInt 3), (1500000000123, PInt 1)]"
  let ?items = "[(''pub_date'', PDict ?info)]"
  let ?raw = "[(''aggregations'', PDict ?items)]"
  let ?results = "[(''hits'', PInt 3),
          (''facets'', PDict [(''fields'', PDict []),
            (''dates'', PDict [(''pub_date'',
               PList [PTuple [PDatetime 1000000000, PInt 3],
                      PTuple [PDatetime (1500000000123 / 1000), PInt 1]])]),
            (''queries'', PDict [])])]"
  have h1: "map_of ?info ''meta'' = Some (PDict ?meta)" by simp
  have h2: "map_of ?meta ''_type'' = Some (PStr ''date_histogram'')" by simp
  have h3: "map_of ?info ''buckets'' = Some (PList ?inds)" by simp
  have h4: "map (\<lambda>i. (subscript i ''key'', subscript i ''doc_count'')) ?inds
              = map (\<lambda>x. (Inr (PInt (fst x)), Inr (snd x))) ?bs"
    by simp
  have h5: "\<forall>x\<in>set ?bs. (fst x mod 1000 = 0 \<and> - 62135596800000 \<le> fst x
                         \<and> fst x < 253402300800000)
                      \<or> \<bar>fst x\<bar> < 8589934592000" by simp
  have h6: "map_of ?raw ''aggregations'' = Some (PDict ?items) \<and> distinct (map fst ?items)
     \<and> (''pub_date'', PDict ?info) \<in> set ?items" by simp
  note t = date_keys_divided_by_1000 [OF h1 h2 h3 h4 h5, of "''pub_date''" empty_facets ?raw ?items
      "\<lambda>raw. Inr [(''hits'', PInt 3)]" ?results
      "PDict [(''key'', PInt 95617584000123), (''doc_count'', PInt 2)]" 95617584000123 "PInt 2"]
  from t have turn: "decode_facet ''pub_date'' (PDict ?info) empty_facets =
      Inr (empty_facets\<lparr>facet_dates := dict_set ''pub_date'' (date_counts ?bs)
             (facet_dates empty_facets)\<rparr>)"
    by (rule conjunct1)
  have h7: "process_results (\<lambda>raw. Inr [(''hits'', PInt 3)]) ?raw = Inr ?results"
    apply (simp add: process_results_def dict_has_def turn)
    apply (simp add: date_counts_def empty_facets_def facets_dict_def)
    done
  from t have "date_pair (PDict [(''key'', PInt 95617584000123), (''doc_count'', PInt 2)])
       = Inr (PDatetime (95617584000123001 / 1000000), PInt 2)"
    by (simp add: far_future_key_rounds)
  with h7 show ?thesis by simp
qed


subsection \<open>The shape of a similarity query\<close>

text \<open>
  C7. The similarity query is the bare \<open>more_like_this\<close> clause when no narrowing query
  accumulates, and otherwise a \<open>bool\<close> clause whose \<open>must\<close> is the \<open>more_like_this\<close>
  clause and whose \<open>filter\<close> is a \<open>bool/must\<close> group of all the narrowing queries. No
  narrowing query accumulates exactly when the additional query string is missing, empty or
  the match-everything sentinel and there is no type restriction; there is no type
  restriction exactly when no models are given and either the limit to registered models
  is off or no model is registered.
\<close>

theorem mlt_query_shape:
  "mlt_query s field_name doc_id additional_query_string models limit_to_registered_models =
     (if narrow_queries s additional_query_string models limit_to_registered_models = []
      then PDict [(''query'', mlt_clause field_name doc_id)]
      else PDict [(''query'', PDict [(''bool'', PDict
             [(''must'', mlt_clause field_name doc_id),
              (''filter'', PDict [(''bool'', PDict [(''must'', PList
                 (narrow_queries s additional_query_string models limit_to_registered_models))])])])])])
   \<and> (narrow_queries s additional_query_string models limit_to_registered_models = [] \<longleftrightarrow>
        (additional_query_string = None \<or> additional_query_string = Some []
           \<or> additional_query_string = Some ''*:*'')
        \<and> model_choices s models limit_to_registered_models = [])
   \<and> (model_choices s models limit_to_registered_models = [] \<longleftrightarrow>
        (models = None \<or> models = Some [])
        \<and> ((case limit_to_registered_models of
                None \<Rightarrow> (case limit_setting s of None \<Rightarrow> True | Some l \<Rightarrow> l)
              | Some l \<Rightarrow> l) = False
            \<or> build_models_list s = []))"
proof (intro conjI)
  show "mlt_query s field_name doc_id additional_query_string models limit_to_registered_models =
     (if narrow_queries s additional_query_string models limit_to_registered_models = []
      then PDict [(''query'', mlt_clause field_name doc_id)]
      else PDict [(''query'', PDict [(''bool'', PDict
             [(''must'', mlt_clause field_name doc_id),
              (''filter'', PDict [(''bool'', PDict [(''must'', PList
                 (narrow_queries s additional_query_string models limit_to_registered_models))])])])])])"
    by (simp add: mlt_query_def Let_def)
  show "narrow_queries s additional_query_string models limit_to_registered_models = [] \<longleftrightarrow>
        (additional_query_string = None \<or> additional_query_string = Some []
           \<or> additional_query_string = Some ''*:*'')
        \<and> model_choices s models limit_to_registered_models = []"
    by (cases additional_query_string) (auto simp: narrow_queries_def Let_def)
  show "model_choices s models limit_to_registered_models = [] \<longleftrightarrow>
        (models = None \<or> models = Some [])
        \<and> ((case limit_to_registered_models of
                None \<Rightarrow> (case limit_setting s of None \<Rightarrow> True | Some l \<Rightarrow> l)
              | Some l \<Rightarrow> l) = False
            \<or> build_models_list s = [])"
    by (cases models) (auto simp: model_choices_def Let_def sort_key_eq_Nil)
qed

subsection \<open>Transport failures\<close>





lemma clear_scan_failure:
  assumes "scan_answer e (index_name b) (clear_query s ms) = Inl status"
  shows "clear s e (Some ms) b =
         (if silently_fail b
          then Inr (b\<lparr>requests := requests b @ [Scan (index_name b) (clear_query s ms)],
                      log_records := log_records b @
                        [FailedToClearModels (join '','' (models_to_delete s ms))
                           (TransportError status)]\<rparr>)
          else Inl (TransportError status))"
  using assms by (simp add: clear_def clear_try_def Let_def)



lemma clear_delete_ignored:
  assumes "delete_answer e (index_name b) = 404"
  shows "clear s e None b =
           Inr (b\<lparr>requests := requests b @ [DeleteIndex (index_name b)],
                  setup_complete := False, existing_mapping := [],
                  content_field_name := None\<rparr>)"
  using assms by (simp add: clear_def clear_try_def perform_def Let_def)




subsection \<open>Clearing a missing index\<close>

text \<open>
  C9 (as the code has it). Clearing everything when the engine answers 404 to the deletion
  of the index raises nothing, whatever the silent-fail configuration, and resets the cached
  setup, mapping and content field. A partial clear whose scan is answered with 404, as on
  an index that does not exist, follows the silent-fail configuration: when it is on, the
  failure is logged and nothing is deleted; when it is off, the TransportError is raised.
\<close>

theorem clear_missing_index:
  "(delete_answer e (index_name b) = 404
    \<longrightarrow> clear s e None b =
           Inr (b\<lparr>requests := requests b @ [DeleteIndex (index_name b)],
                  setup_complete := False, existing_mapping := [],
                  content_field_name := None\<rparr>))
   \<and> (scan_answer e (index_name b) (clear_query s ms) = Inl 404
    \<longrightarrow> clear s e (Some ms) b =
         (if silently_fail b
          then Inr (b\<lparr>requests := requests b @ [Scan (index_name b) (clear_query s ms)],
                      log_records := log_records b @
                        [FailedToClearModels (join '','' (models_to_delete s ms))
                           (TransportError 404)]\<rparr>)
          else Inl (TransportError 404)))"
  by (intro conjI impI) (simp_all add: clear_delete_ignored clear_scan_failure)

theorem clear_missing_index_witness:
  "clear demo_site missing_index_engine None (demo_backend True) =
     Inr \<lparr>index_name = ''haystack'', silently_fail = True, setup_complete = False,
          existing_mapping = [], content_field_name = None, log_records = [],
          requests = [DeleteIndex ''haystack'']\<rparr>
   \<and> clear demo_site missing_index_engine (Some [''core.mockmodel'', ''core.another''])
       \<lparr>index_name = ''haystack'', silently_fail = True, setup_complete = False,
        existing_mapping = [], content_field_name = None, log_records = [],
        requests = [DeleteIndex ''haystack'']\<rparr>
     = Inr \<lparr>index_name = ''haystack'', silently_fail = True, setup_complete = False,
          existing_mapping = [], content_field_name = None,
          log_records = [FailedToClearModels ''django_ct:core.mockmodel,django_ct:core.another''
                           (TransportError 404)],
          requests = [DeleteIndex ''haystack'',
            Scan ''haystack'' (PDict [(''query'', PDict [(''query_string'', PDict [(''query'',
              PStr ''django_ct:core.mockmodel OR django_ct:core.another'')])])])]\<rparr>"
proof -
  let ?b1 = "\<lparr>index_name = ''haystack'', silently_fail = True, setup_complete = False,
        existing_mapping = [], content_field_name = None, log_records = [],
        requests = [DeleteIndex ''haystack'']\<rparr>"
  have d: "delete_answer missing_index_engine (index_name (demo_backend True)) = 404"
    by (simp add: missing_index_engine_def)
  have sc: "scan_answer missing_index_engine (index_name ?b1)
              (clear_query demo_site [''core.mockmodel'', ''core.another'']) = Inl 404"
    by (simp add: missing_index_engine_def)
  from clear_missing_index [of missing_index_engine "demo_backend True" demo_site "[]"] d
    clear_missing_index [of missing_index_engine ?b1 demo_site
      "[''core.mockmodel'', ''core.another'']"] sc
  show ?thesis
    by (simp add: demo_backend_def clear_query_def models_to_delete_def demo_site_def)
qed

text \<open>
  The claim as stated, that the partial clear on the missing index raises no error
  whatever the silent-fail configuration, fails with silent-fail off: the full clear
  succeeds and the partial clear that follows raises the 404.
\<close>

theorem partial_clear_missing_index_counterexample:
  "clear demo_site missing_index_engine None (demo_backend False) =
     Inr \<lparr>index_name = ''haystack'', silently_fail = False, setup_complete = False,
          existing_mapping = [], content_field_name = None, log_records = [],
          requests = [DeleteIndex ''haystack'']\<rparr>
   \<and> clear demo_site missing_index_engine (Some [''core.mockmodel''])
       \<lparr>index_name = ''haystack'', silently_fail = False, setup_complete = False,
        existing_mapping = [], content_field_name = None, log_records = [],
        requests = [DeleteIndex ''haystack'']\<rparr>
     = Inl (TransportError 404)"
  by (simp add: clear_def clear_try_def perform_def missing_index_engine_def demo_backend_def
      Let_def)

subsection \<open>Unrecognized facet types\<close>

lemma decode_facet_unrecognized:
  assumes "unrecognized info"
  shows "decode_facet n info fs = Inr fs"
proof -
  from assms obtain meta t where "subscript info ''meta'' = Inr meta"
    and "subscript meta ''_type'' = Inr t"
    and "t \<noteq> PStr ''terms''" "t \<noteq> PStr ''date_histogram''" "t \<noteq> PStr ''query''"
    by (cases "subscript info ''meta''")
       (auto simp: unrecognized_def split: sum.splits)
  then show ?thesis by (simp add: decode_facet_def)
qed

lemma decode_facets_filter:
  "decode_facets items fs = decode_facets (filter (\<lambda>x. \<not> unrecognized (snd x)) items) fs"
proof (induction items arbitrary: fs)
  case Nil
  show ?case by simp
next
  case (Cons a items)
  obtain n info where a: "a = (n, info)" by (cases a)
  show ?case
  proof (cases "unrecognized info")
    case True
    with a Cons.IH show ?thesis by (simp add: decode_facet_unrecognized)
  next
    case False
    with a Cons.IH show ?thesis
      by (cases "decode_facet n info fs") simp_all
  qed
qed

text \<open>
  C10. An aggregation entry whose metadata type tag is none of \<open>terms\<close>,
  \<open>date_histogram\<close> and \<open>query\<close> is ignored: its turn of the loop raises nothing and
  leaves the three mappings as they were, and decoding a response gives what decoding it
  without those entries gives, so the recognized entries are decoded as usual (and an
  error among them is raised as usual). There is one decoder: nothing in it depends on a
  build.
\<close>

theorem unrecognized_facets_ignored:
  "(unrecognized facet_info \<longrightarrow> decode_facet facet_fieldname facet_info fs = Inr fs)
   \<and> (map_of raw_results ''aggregations'' = Some (PDict items) \<longrightarrow>
        process_results super raw_results =
          ebind (super raw_results) (\<lambda>results.
          ebind (decode_facets (filter (\<lambda>x. \<not> unrecognized (snd x)) items) empty_facets) (\<lambda>fs.
            Inr (dict_set ''facets'' (PDict (facets_dict fs)) results))))"
  using decode_facets_filter [of items empty_facets]
  by (simp add: decode_facet_unrecognized process_results_aggregations)

theorem unrecognized_facets_ignored_witness:
  "unrecognized (PDict [(''meta'', PDict [(''_type'', PStr ''geo_distance'')]), (''buckets'', PList [])])
   \<and> decode_facet ''near''
        (PDict [(''meta'', PDict [(''_type'', PStr ''geo_distance'')]), (''buckets'', PList [])])
        empty_facets = Inr empty_facets
   \<and> process_results (\<lambda>raw. Inr [(''hits'', PInt 0)])
        [(''aggregations'', PDict
           [(''near'', PDict [(''meta'', PDict [(''_type'', PStr ''geo_distance'')]),
                              (''buckets'', PList [])]),
            (''recent'', PDict [(''meta'', PDict [(''_type'', PStr ''query'')]),
                                (''doc_count'', PInt 7)])])]
      = Inr [(''hits'', PInt 0),
             (''facets'', PDict [(''fields'', PDict []), (''dates'', PDict []),
                                 (''queries'', PDict [(''recent'', PInt 7)])])]"
proof -
  let ?near = "PDict [(''meta'', PDict [(''_type'', PStr ''geo_distance'')]), (''buckets'', PList [])]"
  let ?recent = "PDict [(''meta'', PDict [(''_type'', PStr ''query'')]), (''doc_count'', PInt 7)]"
  let ?items = "[(''near'', ?near), (''recent'', ?recent)]"
  have u: "unrecognized ?near" by (simp add: unrecognized_def)
  have r: "\<not> unrecognized ?recent" by (simp add: unrecognized_def)
  have a: "map_of [(''aggregations'', PDict ?items)] ''aggregations'' = Some (PDict ?items)"
    by simp
  from unrecognized_facets_ignored [of ?near "''near''" empty_facets
      "[(''aggregations'', PDict ?items)]" ?items "\<lambda>raw. Inr [(''hits'', PInt 0)]"] u r a
  show ?thesis
    by (simp add: decode_facet_def empty_facets_def facets_dict_def)
qed

end
